theory Spec2Isabelle
  imports Complex_Main "HOL-Library.Sublist" "HOL-Library.AList" "HOL-Library.Char_ord"
    "HOL-Library.List_Lexorder"
begin

section \<open>Python strings\<close>

text \<open>
  The module is Python 2: a \<open>str\<close> is a byte string, modelled by \<^typ>\<open>string\<close>.
  The string methods the module calls are written out below, each after the
  behaviour of the Python method of the same name.
\<close>

definition is_space :: "char \<Rightarrow> bool" where
  "is_space c \<longleftrightarrow> c \<in> set [CHR '' '', CHR 0x09, CHR 0x0A, CHR 0x0B, CHR 0x0C, CHR 0x0D]"

definition str_strip :: "string \<Rightarrow> string" where
  "str_strip s = rev (dropWhile is_space (rev (dropWhile is_space s)))"

text \<open>\<open>s.split()\<close>: maximal runs of non-whitespace characters.\<close>

fun split_ws :: "string \<Rightarrow> string \<Rightarrow> string list" where
  "split_ws cur [] = (if cur = [] then [] else [cur])"
| "split_ws cur (c # cs) =
     (if is_space c then (if cur = [] then split_ws [] cs else cur # split_ws [] cs)
      else split_ws (cur @ [c]) cs)"

definition str_split :: "string \<Rightarrow> string list" where
  "str_split s = split_ws [] s"

text \<open>\<open>s.split(sep)\<close> for a one-character separator: never the empty list.\<close>

fun split_on :: "char \<Rightarrow> string \<Rightarrow> string \<Rightarrow> string list" where
  "split_on sep cur [] = [cur]"
| "split_on sep cur (c # cs) =
     (if c = sep then cur # split_on sep [] cs else split_on sep (cur @ [c]) cs)"

definition str_split_on :: "char \<Rightarrow> string \<Rightarrow> string list" where
  "str_split_on sep s = split_on sep [] s"

text \<open>\<open>lower\<close> and \<open>upper\<close> change the ASCII letters only.\<close>

definition lower_char :: "char \<Rightarrow> char" where
  "lower_char c =
     (case map_of (zip ''ABCDEFGHIJKLMNOPQRSTUVWXYZ'' ''abcdefghijklmnopqrstuvwxyz'') c of
        None \<Rightarrow> c
      | Some l \<Rightarrow> l)"

definition upper_char :: "char \<Rightarrow> char" where
  "upper_char c =
     (case map_of (zip ''abcdefghijklmnopqrstuvwxyz'' ''ABCDEFGHIJKLMNOPQRSTUVWXYZ'') c of
        None \<Rightarrow> c
      | Some u \<Rightarrow> u)"

definition str_lower :: "string \<Rightarrow> string" where
  "str_lower s = map lower_char s"

definition str_upper :: "string \<Rightarrow> string" where
  "str_upper s = map upper_char s"

text \<open>\<open>s.find(sub)\<close>: the lowest index where \<open>sub\<close> starts, or \<open>-1\<close>.\<close>

fun find_from :: "nat \<Rightarrow> string \<Rightarrow> string \<Rightarrow> int" where
  "find_from i [] sub = (if sub = [] then int i else - 1)"
| "find_from i (c # cs) sub =
     (if prefix sub (c # cs) then int i else find_from (Suc i) cs sub)"

definition str_find :: "string \<Rightarrow> string \<Rightarrow> int" where
  "str_find s sub = find_from 0 s sub"

text \<open>\<open>sub in s\<close> for two strings is the substring test.\<close>

definition str_in :: "string \<Rightarrow> string \<Rightarrow> bool" where
  "str_in sub s \<longleftrightarrow> 0 \<le> str_find s sub"

text \<open>\<open>s.replace(c, '')\<close> for a one-character \<open>c\<close>.\<close>

definition str_remove :: "char \<Rightarrow> string \<Rightarrow> string" where
  "str_remove c s = filter (\<lambda>x. x \<noteq> c) s"

text \<open>\<open>fid.readlines()\<close>: the lines of a text, each with its line feed.\<close>

fun lines_of :: "string \<Rightarrow> string \<Rightarrow> string list" where
  "lines_of cur [] = (if cur = [] then [] else [cur])"
| "lines_of cur (c # cs) =
     (if c = CHR 0x0A then (cur @ [c]) # lines_of [] cs else lines_of (cur @ [c]) cs)"

definition readlines :: "string \<Rightarrow> string list" where
  "readlines s = lines_of [] s"

section \<open>Values, exceptions and the environment\<close>

text \<open>
  Attributes of the section objects are set with \<open>setattr\<close> under names read from the
  file, so an object is its attribute dictionary: an association list from attribute
  names to values. A Python \<open>float\<close> is modelled by the real number it denotes
  (infinities and NaN are outside the model).
\<close>

datatype pyval =
    PNone
  | PBool bool
  | PInt int
  | PFloat real
  | PStr string
  | PList "pyval list"
  | PDict "(string \<times> pyval) list"
  | PObj "(string \<times> pyval) list"

type_synonym pyobj = "(string \<times> pyval) list"

datatype error =
    MTpyError_EDI string
  | IOError
  | ValueError
  | TypeError
  | KeyError
  | IndexError
  | AttributeError
  | NameError

definition bindE :: "error + 'a \<Rightarrow> ('a \<Rightarrow> error + 'b) \<Rightarrow> error + 'b" where
  "bindE m f = (case m of Inl e \<Rightarrow> Inl e | Inr x \<Rightarrow> f x)"

definition getattr :: "pyobj \<Rightarrow> string \<Rightarrow> error + pyval" where
  "getattr ob k = (case map_of ob k of None \<Rightarrow> Inl AttributeError | Some v \<Rightarrow> Inr v)"

definition setattr :: "pyobj \<Rightarrow> string \<Rightarrow> pyval \<Rightarrow> pyobj" where
  "setattr ob k v = AList.update k v ob"

text \<open>
  The per-frequency rotation angle of \<open>mtpy.core.z\<close>: unset, one float, or an array.
\<close>

datatype rotation = RotNone | RotFloat real | RotArray "real list"

text \<open>
  The classes \<open>Z\<close> and \<open>Tipper\<close> of \<open>mtpy.core.z\<close> are not part of this module; the
  fields this module reads and writes are kept, an unset array being \<open>None\<close>.
\<close>

record Zobj =
  Z_freq :: "real list option"
  Z_z :: "complex list list list option"
  Z_zerr :: "real list list list option"
  Z_rotation_angle :: rotation

record Tobj =
  T_freq :: "real list option"
  T_tipper :: "complex list list list option"
  T_tippererr :: "real list list list option"
  T_rotation_angle :: rotation

text \<open>
  What the module takes from outside itself: Python builtins (\<open>float\<close>, \<open>int\<close>,
  \<open>str\<close>, \<open>format\<close>), the clock, the working directory, and the functions of
  \<open>mtpy.utils.format\<close>, \<open>mtpy.utils.filehandling\<close> and \<open>mtpy.core.z\<close> it calls.
\<close>

record env =
  py_float :: "string \<Rightarrow> real option"
  py_int :: "string \<Rightarrow> int option"
  py_str :: "pyval \<Rightarrow> string"
  py_format :: "pyval \<Rightarrow> string \<Rightarrow> error + string"
  format_float :: "string \<Rightarrow> real \<Rightarrow> string"
  utcnow :: string
  getcwd :: string
  assert_position_format :: "string \<Rightarrow> pyval \<Rightarrow> error + pyval"
  degrees2dms_string :: "pyval \<Rightarrow> error + string"
  make_unique_filename :: "(string \<rightharpoonup> string) \<Rightarrow> string \<Rightarrow> string"
  new_Z :: Zobj
  new_Tipper :: Tobj

text \<open>
  The file system maps a path to the text of the regular file there; \<open>stdout\<close> holds
  the lines printed so far. A raised exception is the value \<open>Inl\<close>; the state at the
  raise is not kept.
\<close>

record world =
  files :: "string \<rightharpoonup> string"
  stdout :: "string list"

definition print :: "string \<Rightarrow> world \<Rightarrow> world" where
  "print msg w = w\<lparr>stdout := stdout w @ [msg]\<rparr>"

section \<open>Arrays\<close>

definition np_zeros3 :: "nat \<Rightarrow> nat \<Rightarrow> nat \<Rightarrow> ('a::zero) list list list" where
  "np_zeros3 n r c = replicate n (replicate r (replicate c 0))"

text \<open>
  \<open>np.zeros((nfreq, r, c))\<close> for an attribute value \<open>nfreq\<close>: a count must be a
  non-negative integer.
\<close>

definition np_zeros_shape :: "pyval \<Rightarrow> nat \<Rightarrow> nat \<Rightarrow> error + ('a::zero) list list list" where
  "np_zeros_shape nfreq r c =
     (case nfreq of
        PInt n \<Rightarrow> if n < 0 then Inl ValueError else Inr (np_zeros3 (nat n) r c)
      | PBool b \<Rightarrow> Inr (np_zeros3 (if b then 1 else 0) r c)
      | _ \<Rightarrow> Inl TypeError)"

text \<open>
  \<open>np.array(re) + np.array(im)*1j\<close> on two lists of floats, with the broadcasting
  of one-dimensional arrays: equal lengths, or one of them of length one.
\<close>

definition np_complex :: "real list \<Rightarrow> real list \<Rightarrow> error + complex list" where
  "np_complex re im =
     (if length re = length im then Inr (map2 Complex re im)
      else if length re = 1 then Inr (map (\<lambda>y. Complex (hd re) y) im)
      else if length im = 1 then Inr (map (\<lambda>x. Complex x (hd im)) re)
      else Inl ValueError)"

text \<open>
  \<open>a[:, i, j] = v\<close> for a one-dimensional \<open>v\<close>: \<open>v\<close> has the length of the first
  axis, or length one and is broadcast.
\<close>

definition set_entry :: "nat \<Rightarrow> nat \<Rightarrow> 'a list list \<Rightarrow> 'a \<Rightarrow> 'a list list" where
  "set_entry i j m x = m[i := (m ! i)[j := x]]"

definition assign_column :: "'a list list list \<Rightarrow> nat \<Rightarrow> nat \<Rightarrow> 'a list \<Rightarrow> error + 'a list list list" where
  "assign_column a i j v =
     (if length v = length a then Inr (map2 (set_entry i j) a v)
      else if length v = 1 then Inr (map (\<lambda>m. set_entry i j m (hd v)) a)
      else Inl ValueError)"

section \<open>The document\<close>

record Edi =
  edi_fn :: pyval
  Header :: pyobj
  Info :: pyobj
  Define_measurement :: pyobj
  Data_sect :: pyobj
  Z :: Zobj
  Tipper :: Tobj

subsection \<open>\<open>Edi._read_mt\<close>\<close>

text \<open>
  The state of the scan over the data lines: the dictionary of blocks, the label of
  the last marker line (unbound before the first one) and the flag \<open>data_find\<close>.
\<close>

record mt_scan =
  data_dict :: "string \<rightharpoonup> real list"
  scan_key :: "string option"
  data_find :: bool

text \<open>One token of a data line: lines 230 to 235 of the module.\<close>

definition read_mt_token :: "env \<Rightarrow> string \<Rightarrow> real" where
  "read_mt_token ev dd =
     (case py_float ev dd of
        Some v \<Rightarrow> if v = 10 ^ 32 then 0 else v
      | None \<Rightarrow> 0)"

definition read_mt_line :: "env \<Rightarrow> string \<Rightarrow> mt_scan \<Rightarrow> error + mt_scan" where
  "read_mt_line ev line st =
     (if str_find line ''>'' = 0 \<and> str_find line ''!'' = - 1 then
        (case str_split (str_strip (drop 1 line)) of
           [] \<Rightarrow> Inl IndexError
         | tok # _ \<Rightarrow>
             let key = str_lower tok in
             if take 1 key = ''z'' \<or> take 1 key = ''t'' \<or> key = ''freq''
             then Inr \<lparr>data_dict = (data_dict st)(key \<mapsto> []), scan_key = Some key,
                       data_find = True\<rparr>
             else Inr (st\<lparr>scan_key := Some key, data_find := False\<rparr>))
      else if data_find st \<and> str_find line ''>'' = - 1 \<and> str_find line ''!'' = - 1 then
        (case scan_key st of
           None \<Rightarrow> Inl NameError
         | Some key \<Rightarrow>
             (case data_dict st key of
                None \<Rightarrow> Inl KeyError
              | Some xs \<Rightarrow>
                  Inr (st\<lparr>data_dict := (data_dict st)
                        (key \<mapsto> xs @ map (read_mt_token ev) (str_split (str_strip line)))\<rparr>)))
      else Inr st)"

fun read_mt_scan :: "env \<Rightarrow> string list \<Rightarrow> mt_scan \<Rightarrow> error + mt_scan" where
  "read_mt_scan ev [] st = Inr st"
| "read_mt_scan ev (line # rest) st = bindE (read_mt_line ev line st) (read_mt_scan ev rest)"

definition mt_scan_init :: mt_scan where
  "mt_scan_init = \<lparr>data_dict = Map.empty, scan_key = None, data_find = False\<rparr>"

definition dict_get :: "(string \<rightharpoonup> 'a) \<Rightarrow> string \<Rightarrow> error + 'a" where
  "dict_get d k = (case d k of None \<Rightarrow> Inl KeyError | Some v \<Rightarrow> Inr v)"

text \<open>\<open>a[:, i, j] = np.array(d[re]) + np.array(d[im])*1j\<close>\<close>

definition fill_complex ::
  "(string \<rightharpoonup> real list) \<Rightarrow> string \<Rightarrow> string \<Rightarrow> nat \<Rightarrow> nat \<Rightarrow> complex list list list
    \<Rightarrow> error + complex list list list" where
  "fill_complex d re im i j a =
     bindE (dict_get d re) (\<lambda>r. bindE (dict_get d im) (\<lambda>m.
     bindE (np_complex r m) (\<lambda>v. assign_column a i j v)))"

text \<open>\<open>a[:, i, j] = np.array(d[k])\<close>\<close>

definition fill_real ::
  "(string \<rightharpoonup> real list) \<Rightarrow> string \<Rightarrow> nat \<Rightarrow> nat \<Rightarrow> real list list list
    \<Rightarrow> error + real list list list" where
  "fill_real d k i j a = bindE (dict_get d k) (\<lambda>v. assign_column a i j v)"

text \<open>Lines 239 to 258: the frequencies and the impedance tensor.\<close>

definition read_mt_impedance :: "(string \<rightharpoonup> real list) \<Rightarrow> pyobj \<Rightarrow> Zobj \<Rightarrow> error + Zobj" where
  "read_mt_impedance d dsect zo =
     bindE (dict_get d ''freq'') (\<lambda>freq_arr.
     bindE (getattr dsect ''nfreq'') (\<lambda>nfreq.
     bindE (np_zeros_shape nfreq 2 2) (\<lambda>z0.
     bindE (np_zeros_shape nfreq 2 2) (\<lambda>zerr0.
     bindE (fill_complex d ''zxxr'' ''zxxi'' 0 0 z0) (\<lambda>z1.
     bindE (fill_complex d ''zxyr'' ''zxyi'' 0 1 z1) (\<lambda>z2.
     bindE (fill_complex d ''zyxr'' ''zyxi'' 1 0 z2) (\<lambda>z3.
     bindE (fill_complex d ''zyyr'' ''zyyi'' 1 1 z3) (\<lambda>z4.
     bindE (fill_real d ''zxx.var'' 0 0 zerr0) (\<lambda>e1.
     bindE (fill_real d ''zxy.var'' 0 1 e1) (\<lambda>e2.
     bindE (fill_real d ''zyx.var'' 1 0 e2) (\<lambda>e3.
     bindE (fill_real d ''zyy.var'' 1 1 e3) (\<lambda>e4.
     Inr (zo\<lparr>Z_freq := Some freq_arr, Z_z := Some z4, Z_zerr := Some e4\<rparr>)))))))))))))"

text \<open>Lines 262 to 278: the tipper, filled only when a block \<open>txr.exp\<close> was read.\<close>

definition read_mt_tipper ::
  "(string \<rightharpoonup> real list) \<Rightarrow> pyobj \<Rightarrow> real list \<Rightarrow> Tobj \<Rightarrow> world \<Rightarrow> error + (Tobj \<times> world)" where
  "read_mt_tipper d dsect freq_arr tobj w =
     bindE (getattr dsect ''nfreq'') (\<lambda>nfreq.
     bindE (np_zeros_shape nfreq 1 2) (\<lambda>t0.
     bindE (np_zeros_shape nfreq 1 2) (\<lambda>terr0.
     if ''txr.exp'' \<in> dom d then
       bindE (fill_complex d ''txr.exp'' ''txi.exp'' 0 0 t0) (\<lambda>t1.
       bindE (fill_complex d ''tyr.exp'' ''tyi.exp'' 0 1 t1) (\<lambda>t2.
       bindE (fill_real d ''txvar.exp'' 0 0 terr0) (\<lambda>v1.
       bindE (fill_real d ''tyvar.exp'' 0 1 v1) (\<lambda>v2.
       Inr (tobj\<lparr>T_freq := Some freq_arr, T_tipper := Some t2, T_tippererr := Some v2\<rparr>, w)))))
     else
       Inr (tobj\<lparr>T_freq := Some freq_arr, T_tipper := Some t0, T_tippererr := Some terr0\<rparr>,
            print ''Could not find any Tipper data.'' w))))"

definition read_mt :: "env \<Rightarrow> string list \<Rightarrow> Edi \<Rightarrow> world \<Rightarrow> error + (Edi \<times> world)" where
  "read_mt ev data_lines e w =
     bindE (read_mt_scan ev data_lines mt_scan_init) (\<lambda>st.
     bindE (read_mt_impedance (data_dict st) (Data_sect e) (Z e)) (\<lambda>zo.
     bindE (dict_get (data_dict st) ''freq'') (\<lambda>freq_arr.
     bindE (read_mt_tipper (data_dict st) (Data_sect e) freq_arr (Tipper e) w) (\<lambda>(tobj, w').
     Inr (e\<lparr>Z := zo, Tipper := tobj\<rparr>, w')))))"

subsection \<open>\<open>Edi._read_spectra\<close> and \<open>Edi._read_data\<close>\<close>

text \<open>The body of \<open>_read_spectra\<close> binds an empty local dictionary and returns.\<close>

definition read_spectra :: "string list \<Rightarrow> Edi \<Rightarrow> world \<Rightarrow> error + (Edi \<times> world)" where
  "read_spectra data_lines e w = Inr (e, w)"

text \<open>\<open>v + k\<close> for an attribute value \<open>v\<close> used as a list index.\<close>

definition index_add :: "pyval \<Rightarrow> int \<Rightarrow> error + int" where
  "index_add v k =
     (case v of
        PInt n \<Rightarrow> Inr (n + k)
      | PBool b \<Rightarrow> Inr ((if b then 1 else 0) + k)
      | _ \<Rightarrow> Inl TypeError)"

text \<open>\<open>xs[k:]\<close>: a negative \<open>k\<close> counts from the end.\<close>

definition slice_from :: "'a list \<Rightarrow> int \<Rightarrow> 'a list" where
  "slice_from xs k = (if 0 \<le> k then drop (nat k) xs else drop (length xs - nat (- k)) xs)"

definition read_data :: "env \<Rightarrow> Edi \<Rightarrow> world \<Rightarrow> error + (Edi \<times> world)" where
  "read_data ev e w =
     (case edi_fn e of
        PNone \<Rightarrow> Inl (MTpyError_EDI ''No edi file input, check edi_fn'')
      | PStr fn \<Rightarrow>
          (case files w fn of
             None \<Rightarrow> Inl (MTpyError_EDI ''No edi file input, check edi_fn'')
           | Some txt \<Rightarrow>
               bindE (getattr (Data_sect e) ''line_num'') (\<lambda>line_num.
               bindE (index_add line_num 2) (\<lambda>k.
               bindE (getattr (Data_sect e) ''data_type'') (\<lambda>data_type.
               if data_type = PStr ''spectra'' then
                 read_spectra (slice_from (readlines txt) k) e w
               else if data_type = PStr ''z'' then
                 read_mt ev (slice_from (readlines txt) k) e w
               else Inr (e, w)))))
      | _ \<Rightarrow> Inl TypeError)"

subsection \<open>\<open>Edi._write_data_block\<close>\<close>

text \<open>\<open>float(v)\<close> for an attribute value.\<close>

definition to_float :: "env \<Rightarrow> pyval \<Rightarrow> error + real" where
  "to_float ev v =
     (case v of
        PFloat r \<Rightarrow> Inr r
      | PInt i \<Rightarrow> Inr (of_int i)
      | PBool b \<Rightarrow> Inr (if b then 1 else 0)
      | PStr s \<Rightarrow> (case py_float ev s of None \<Rightarrow> Inl ValueError | Some r \<Rightarrow> Inr r)
      | _ \<Rightarrow> Inl TypeError)"

text \<open>\<open>str(v)\<close>, also \<open>'{0}'.format(v)\<close> and what \<open>print\<close> shows.\<close>

definition str_of :: "env \<Rightarrow> pyval \<Rightarrow> string" where
  "str_of ev v =
     (case v of
        PStr s \<Rightarrow> s
      | PNone \<Rightarrow> ''None''
      | PBool b \<Rightarrow> (if b then ''True'' else ''False'')
      | _ \<Rightarrow> py_str ev v)"

definition num_format :: string where
  "num_format = '' 15.6e''"

definition block_len :: nat where
  "block_len = 6"

text \<open>
  The loop of lines 415 to 428 over \<open>enumerate(data_comp_arr, 1)\<close>: \<open>k\<close> is
  \<open>data_key.lower()\<close>, \<open>sz\<close> is \<open>data_comp_arr.size\<close> and \<open>d_index\<close> the running index.
\<close>

fun write_data_values ::
  "env \<Rightarrow> pyobj \<Rightarrow> string \<Rightarrow> nat \<Rightarrow> nat \<Rightarrow> real list \<Rightarrow> error + string list" where
  "write_data_values ev hdr k sz d_index [] = Inr []"
| "write_data_values ev hdr k sz d_index (d_comp # rest) =
     bindE (if d_comp = 0 \<and> k \<notin> set [''zrot'', ''trot'']
            then bindE (getattr hdr ''empty'') (to_float ev)
            else Inr d_comp) (\<lambda>d.
     let num_str = format_float ev num_format d;
         num_str1 = (if d_index mod block_len = 0 then num_str @ ''\<newline>'' else num_str);
         num_str2 = (if d_index = sz then num_str1 @ ''\<newline>'' else num_str1)
     in bindE (write_data_values ev hdr k sz (Suc d_index) rest) (\<lambda>more.
        Inr (num_str2 # more)))"

definition write_data_block :: "env \<Rightarrow> Edi \<Rightarrow> real list \<Rightarrow> string \<Rightarrow> error + string list" where
  "write_data_block ev e data_comp_arr data_key =
     (let k = str_lower data_key;
          sz = format_float ev ''.0f'' (real (length data_comp_arr))
      in bindE
          (if 0 \<le> str_find k ''z'' \<and> k \<notin> set [''zrot'', ''trot''] then
             Inr [''>'' @ str_upper data_key @ '' ROT=ZROT // '' @ sz @ ''\<newline>'']
           else if 0 \<le> str_find k ''t'' \<and> k \<notin> set [''zrot'', ''trot''] then
             Inr [''>'' @ str_upper data_key @ '' ROT=TROT // '' @ sz @ ''\<newline>'']
           else if k = ''freq'' then
             Inr [''>'' @ str_upper data_key @ '' // '' @ sz @ ''\<newline>'']
           else if k \<in> set [''zrot'', ''trot''] then
             Inr [''>'' @ str_upper data_key @ '' // '' @ sz @ ''\<newline>'']
           else Inl (MTpyError_EDI (''Cannot write block for '' @ data_key)))
          (\<lambda>block_lines.
             bindE (write_data_values ev (Header e) k (length data_comp_arr) 1 data_comp_arr)
               (\<lambda>vals. Inr (block_lines @ vals))))"

section \<open>The section classes\<close>

definition tab :: string where
  "tab = ''    ''"

text \<open>
  Iterating over an attribute value that holds strings: a list of strings, or a
  string, whose items are its characters.
\<close>

fun strs_of :: "pyval list \<Rightarrow> error + string list" where
  "strs_of [] = Inr []"
| "strs_of (PStr s # vs) = bindE (strs_of vs) (\<lambda>ss. Inr (s # ss))"
| "strs_of (v # vs) = Inl AttributeError"

definition iter_items :: "pyval \<Rightarrow> error + pyval list" where
  "iter_items v =
     (case v of
        PList xs \<Rightarrow> Inr xs
      | PStr s \<Rightarrow> Inr (map (\<lambda>c. PStr [c]) s)
      | _ \<Rightarrow> Inl TypeError)"

text \<open>
  \<open>os.path.isfile\<close> and \<open>open\<close> on an attribute value: a path is a string.
\<close>

definition isfile :: "world \<Rightarrow> string \<Rightarrow> bool" where
  "isfile w p \<longleftrightarrow> files w p \<noteq> None"

definition open_lines :: "world \<Rightarrow> string \<Rightarrow> error + string list" where
  "open_lines w p = (case files w p of None \<Rightarrow> Inl IOError | Some txt \<Rightarrow> Inr (readlines txt))"

subsection \<open>\<open>Header\<close>\<close>

definition header_keys :: "string list" where
  "header_keys = [''acqby'', ''acqdate'', ''dataid'', ''elev'', ''fileby'', ''lat'', ''loc'',
                  ''lon'', ''filedate'', ''empty'', ''progdate'', ''progvers'']"

definition validate_header_list :: "string list \<Rightarrow> string list" where
  "validate_header_list header_list =
     concat (map (\<lambda>h_line.
       let l = str_remove (CHR 0x22) (str_strip h_line) in
       if 1 < length l then
         (case str_split_on (CHR ''='') l of
            [key, value] \<Rightarrow> [key @ ''='' @ value]
          | _ \<Rightarrow> [])
       else []) header_list)"

text \<open>The loop of \<open>get_header_list\<close> over the lines of the file, with its \<open>break\<close>.\<close>

fun header_scan :: "string list \<Rightarrow> nat \<Rightarrow> bool \<Rightarrow> string list \<Rightarrow> string list" where
  "header_scan [] count head_find acc = acc"
| "header_scan (line # rest) count head_find acc =
     (if str_find line ''>'' = 0 then
        (let count' = count + 1;
             head_find' = (0 < str_find (str_lower line) ''head'')
         in if count' = 2 \<and> \<not> head_find' then acc
            else header_scan rest count' head_find' acc)
      else if count = 1 \<and> str_find line ''>'' \<noteq> 0 \<and> head_find then
        (let l = str_strip line
         in header_scan rest count head_find (if 2 < length l then acc @ [str_strip l] else acc))
      else header_scan rest count head_find acc)"

definition get_header_list :: "env \<Rightarrow> pyobj \<Rightarrow> world \<Rightarrow> error + (pyobj \<times> world)" where
  "get_header_list ev h w =
     bindE (getattr h ''edi_fn'') (\<lambda>fn.
     case fn of
       PNone \<Rightarrow> Inr (h, print ''No edi file to read'' w)
     | PStr p \<Rightarrow>
         (let w1 = (if \<not> isfile w p then print (''Could not find '' @ p @ '', check path'') w
                    else w)
          in bindE (open_lines w1 p) (\<lambda>ls.
             Inr (setattr h ''header_list''
                    (PList (map PStr (validate_header_list (header_scan ls 0 False [])))), w1)))
     | _ \<Rightarrow> Inl TypeError)"

text \<open>One pass of the loop of \<open>read_header\<close>, lines 696 to 733.\<close>

definition read_header_line :: "env \<Rightarrow> pyval \<Rightarrow> pyobj \<Rightarrow> world \<Rightarrow> error + (pyobj \<times> world)" where
  "read_header_line ev item h w =
     (case item of
        PStr h_line \<Rightarrow>
          (case str_split_on (CHR ''='') h_line of
             k0 # v0 # _ \<Rightarrow>
               (let key = str_lower k0; value = str_remove (CHR 0x22) v0 in
                if str_in key ''latitude'' then
                  bindE (assert_position_format ev ''lat'' (PStr value)) (\<lambda>v.
                  Inr (setattr h ''lat'' v, w))
                else if str_in key ''longitude'' then
                  bindE (assert_position_format ev ''lon'' (PStr value)) (\<lambda>v.
                  Inr (setattr h ''lon'' v, w))
                else if str_in key ''elevation'' then
                  (case py_float ev value of
                     Some x \<Rightarrow> Inr (setattr h ''elev'' (PFloat x), w)
                   | None \<Rightarrow> Inr (setattr h ''elev'' (PFloat 0), print ''No elevation data'' w))
                else if key \<in> set [''country'', ''state'', ''loc'', ''location'', ''prospect''] then
                  bindE (getattr h ''loc'') (\<lambda>cur.
                  Inr (setattr h ''loc''
                         (PStr (if cur \<noteq> PNone then str_of ev cur @ '', '' @ value else value)), w))
                else if key \<in> set [''progvers''] then
                  Inr (setattr (if str_find (str_lower value) ''mt-editor'' \<noteq> - 1
                                then setattr h ''phoenix_edi'' (PBool True) else h)
                         key (PStr value), w)
                else if key \<in> set [''fileby''] then
                  Inr (setattr h key (PStr (if value = [] then ''mtpy'' else value)), w)
                else Inr (setattr h key (PStr value), w))
           | _ \<Rightarrow> Inl IndexError)
      | _ \<Rightarrow> Inl AttributeError)"

fun read_header_lines :: "env \<Rightarrow> pyval list \<Rightarrow> pyobj \<Rightarrow> world \<Rightarrow> error + (pyobj \<times> world)" where
  "read_header_lines ev [] h w = Inr (h, w)"
| "read_header_lines ev (item # rest) h w =
     bindE (read_header_line ev item h w) (\<lambda>(h', w'). read_header_lines ev rest h' w')"

definition read_header :: "env \<Rightarrow> pyval \<Rightarrow> pyobj \<Rightarrow> world \<Rightarrow> error + (pyobj \<times> world)" where
  "read_header ev header_list h w =
     bindE (if header_list \<noteq> PNone then
              bindE (iter_items header_list) (\<lambda>items. bindE (strs_of items) (\<lambda>ss.
              Inr (setattr h ''header_list'' (PList (map PStr (validate_header_list ss))))))
            else Inr h) (\<lambda>h1.
     bindE (getattr h1 ''header_list'') (\<lambda>hl1.
     bindE (getattr h1 ''edi_fn'') (\<lambda>fn.
     let w1 = (if hl1 = PNone \<and> fn = PNone
               then print ''Nothing to read. header_list and edi_fn are None'' w else w)
     in bindE (if hl1 = PNone \<and> fn \<noteq> PNone then get_header_list ev h1 w1 else Inr (h1, w1))
          (\<lambda>(h2, w2).
     bindE (getattr h2 ''header_list'') (\<lambda>hl2.
     bindE (iter_items hl2) (\<lambda>items.
     read_header_lines ev items h2 w2))))))"

definition Header_init :: "env \<Rightarrow> pyval \<Rightarrow> world \<Rightarrow> error + (pyobj \<times> world)" where
  "Header_init ev fn w =
     (let h = [(''edi_fn'', fn), (''dataid'', PNone), (''acqby'', PNone), (''fileby'', PNone),
               (''acqdate'', PNone), (''units'', PNone), (''filedate'', PStr (utcnow ev)),
               (''loc'', PNone), (''lat'', PNone), (''lon'', PNone), (''elev'', PNone),
               (''empty'', PFloat (10 ^ 32)), (''progvers'', PNone), (''progdate'', PNone),
               (''phoenix_edi'', PBool False), (''header_list'', PNone),
               (''_header_keys'', PList (map PStr header_keys))]
      in if fn \<noteq> PNone then read_header ev PNone h w else Inr (h, w))"

text \<open>One pass of the loop of \<open>write_header\<close>, lines 766 to 784.\<close>

definition write_header_key :: "env \<Rightarrow> pyobj \<Rightarrow> string \<Rightarrow> error + string" where
  "write_header_key ev h key =
     bindE (getattr h key) (\<lambda>value.
     bindE (if key \<in> set [''progdate'', ''progvers''] then
              Inr (if value = PNone then PStr ''mtpy'' else value)
            else if key \<in> set [''lat'', ''lon''] then
              bindE (degrees2dms_string ev value) (\<lambda>s. Inr (PStr s))
            else Inr value) (\<lambda>v1.
     bindE (if key \<in> set [''elev''] then
              (case py_format ev v1 ''.3f'' of
                 Inr s \<Rightarrow> Inr (PStr s)
               | Inl ValueError \<Rightarrow> Inr (PStr ''0.000'')
               | Inl err \<Rightarrow> Inl err)
            else Inr v1) (\<lambda>v2.
     let v3 = (if key \<in> set [''filedate''] then PStr (utcnow ev) else v2)
     in Inr (tab @ str_upper key @ ''='' @ str_of ev v3 @ ''\<newline>''))))"

fun write_header_keys :: "env \<Rightarrow> pyobj \<Rightarrow> string list \<Rightarrow> error + string list" where
  "write_header_keys ev h [] = Inr []"
| "write_header_keys ev h (key # rest) =
     bindE (write_header_key ev h key) (\<lambda>l.
     bindE (write_header_keys ev h rest) (\<lambda>ls. Inr (l # ls)))"

definition write_header ::
  "env \<Rightarrow> pyval \<Rightarrow> pyobj \<Rightarrow> world \<Rightarrow> error + (string list \<times> pyobj \<times> world)" where
  "write_header ev header_list h w =
     bindE (if header_list \<noteq> PNone then read_header ev header_list h w else Inr (h, w))
       (\<lambda>(h1, w1).
     bindE (getattr h1 ''header_list'') (\<lambda>hl.
     bindE (getattr h1 ''edi_fn'') (\<lambda>fn.
     bindE (if hl = PNone \<and> fn \<noteq> PNone then get_header_list ev h1 w1 else Inr (h1, w1))
       (\<lambda>(h2, w2).
     bindE (getattr h2 ''_header_keys'') (\<lambda>keys.
     bindE (iter_items keys) (\<lambda>items.
     bindE (strs_of items) (\<lambda>ks.
     bindE (write_header_keys ev h2 (sort ks)) (\<lambda>ls.
     Inr ([''>HEAD\<newline>\<newline>''] @ ls @ [''\<newline>''], h2, w2)))))))))"

subsection \<open>\<open>Information\<close>\<close>

text \<open>\<open>_validate_info_list\<close>, lines 910 to 920.\<close>

fun validate_info_list :: "env \<Rightarrow> pyval list \<Rightarrow> error + string list" where
  "validate_info_list ev [] = Inr []"
| "validate_info_list ev (item # rest) =
     (if 1 < length (str_strip (str_of ev item)) then
        (case item of
           PStr line \<Rightarrow>
             if str_find line ''>'' = 0 then validate_info_list ev rest
             else bindE (validate_info_list ev rest) (\<lambda>r. Inr (str_strip line # r))
         | _ \<Rightarrow> Inl AttributeError)
      else validate_info_list ev rest)"

text \<open>
  The loop of \<open>get_info_list\<close>: the result is \<open>info_list\<close> and \<open>phoenix_list_02\<close>.
\<close>

fun info_scan ::
  "string list \<Rightarrow> nat \<Rightarrow> bool \<Rightarrow> bool \<Rightarrow> string list \<Rightarrow> string list
    \<Rightarrow> string list \<times> string list" where
  "info_scan [] count info_find phoenix_file il p2 = (il, p2)"
| "info_scan (line # rest) count info_find phoenix_file il p2 =
     (if str_find line ''>'' = 0 then
        (let count' = count + 1;
             info_find' = (0 < str_find (str_lower line) ''info'')
         in if 2 < count' \<and> \<not> info_find' then (il, p2)
            else info_scan rest count' info_find' phoenix_file il p2)
      else if 1 < count \<and> str_find line ''>'' \<noteq> 0 \<and> info_find then
        (let phoenix_file' =
               (phoenix_file \<or> 0 \<le> str_find (str_lower line) ''run information'')
         in if phoenix_file' \<and> 40 < length line then
              info_scan rest count info_find phoenix_file'
                (il @ [str_strip (take 37 line)]) (p2 @ [str_strip (drop 38 line)])
            else
              info_scan rest count info_find phoenix_file'
                (if 1 < length (str_strip line) then il @ [str_strip line] else il) p2)
      else info_scan rest count info_find phoenix_file il p2)"

definition get_info_list :: "env \<Rightarrow> pyobj \<Rightarrow> world \<Rightarrow> error + (pyobj \<times> world)" where
  "get_info_list ev i w =
     bindE (getattr i ''edi_fn'') (\<lambda>fn.
     case fn of
       PNone \<Rightarrow> Inr (i, print ''no edi file input, check edi_fn attribute'' w)
     | PStr p \<Rightarrow>
         if \<not> isfile w p then Inr (i, print (''Could not find '' @ p @ '', check path'') w)
         else
           bindE (open_lines w p) (\<lambda>ls.
           case info_scan ls 0 False False [] [] of (il, p2) \<Rightarrow>
             bindE (validate_info_list ev (map PStr (il @ p2))) (\<lambda>ss.
             Inr (setattr i ''info_list'' (PList (map PStr ss)), w)))
     | _ \<Rightarrow> Inl TypeError)"

definition read_info :: "env \<Rightarrow> pyval \<Rightarrow> pyobj \<Rightarrow> world \<Rightarrow> error + (pyobj \<times> world)" where
  "read_info ev info_list i w =
     bindE (if info_list \<noteq> PNone then
              bindE (iter_items info_list) (\<lambda>items.
              bindE (validate_info_list ev items) (\<lambda>ss.
              Inr (setattr i ''info_list'' (PList (map PStr ss)))))
            else Inr i) (\<lambda>i1.
     bindE (getattr i1 ''edi_fn'') (\<lambda>fn.
     bindE (getattr i1 ''info_list'') (\<lambda>il.
     bindE (if fn \<noteq> PNone \<and> il = PNone then get_info_list ev i1 w else Inr (i1, w))
       (\<lambda>(i2, w2).
     bindE (getattr i2 ''info_list'') (\<lambda>il2.
     if il2 = PNone then Inr (i2, print ''Could not read information'' w2)
     else Inr (i2, w2))))))"

definition Information_init :: "env \<Rightarrow> pyval \<Rightarrow> world \<Rightarrow> error + (pyobj \<times> world)" where
  "Information_init ev fn w =
     (let i = [(''edi_fn'', fn), (''info_list'', PNone)]
      in if fn \<noteq> PNone then read_info ev PNone i w else Inr (i, w))"

definition write_info :: "env \<Rightarrow> pyval \<Rightarrow> pyobj \<Rightarrow> error + (string list \<times> pyobj)" where
  "write_info ev info_list i =
     bindE (if info_list \<noteq> PNone then
              bindE (iter_items info_list) (\<lambda>items.
              bindE (validate_info_list ev items) (\<lambda>ss.
              Inr (setattr i ''info_list'' (PList (map PStr ss)))))
            else Inr i) (\<lambda>i1.
     bindE (getattr i1 ''info_list'') (\<lambda>il.
     bindE (iter_items il) (\<lambda>items.
     Inr ([''>INFO\<newline>\<newline>''] @ map (\<lambda>line. tab @ str_of ev line @ ''\<newline>'') items, i1))))"

subsection \<open>\<open>HMeasurement\<close> and \<open>EMeasurement\<close>\<close>

text \<open>The loop over \<open>kwargs\<close>: a value that \<open>float\<close> accepts is stored as a float.\<close>

fun measurement_kwargs :: "env \<Rightarrow> (string \<times> pyval) list \<Rightarrow> pyobj \<Rightarrow> error + pyobj" where
  "measurement_kwargs ev [] m = Inr m"
| "measurement_kwargs ev ((key, v) # rest) m =
     (case to_float ev v of
        Inr x \<Rightarrow> measurement_kwargs ev rest (setattr m key (PFloat x))
      | Inl ValueError \<Rightarrow> measurement_kwargs ev rest (setattr m key v)
      | Inl err \<Rightarrow> Inl err)"

definition measurement_init ::
  "env \<Rightarrow> string list \<Rightarrow> string list \<Rightarrow> (string \<times> pyval) list \<Rightarrow> error + pyval" where
  "measurement_init ev kw_list fmt_list kwargs =
     bindE (measurement_kwargs ev kwargs
              ([(''_kw_list'', PList (map PStr kw_list)), (''_fmt_list'', PList (map PStr fmt_list))]
               @ map (\<lambda>key. (key, PNone)) kw_list))
       (\<lambda>m. Inr (PObj m))"

definition HMeasurement :: "env \<Rightarrow> (string \<times> pyval) list \<Rightarrow> error + pyval" where
  "HMeasurement ev kwargs =
     measurement_init ev [''id'', ''chtype'', ''x'', ''y'', ''azm'', ''acqchan'']
       [''<4.4g'', ''<3'', ''<4.1f'', ''<4.1f'', ''<4.1f'', ''<4''] kwargs"

definition EMeasurement :: "env \<Rightarrow> (string \<times> pyval) list \<Rightarrow> error + pyval" where
  "EMeasurement ev kwargs =
     measurement_init ev [''id'', ''chtype'', ''x'', ''y'', ''x2'', ''y2'', ''acqchan'']
       [''<4.4g'', ''<3'', ''<4.1f'', ''<4.1f'', ''<4.1f'', ''<4.1f'', ''<4''] kwargs"

subsection \<open>\<open>DefineMeasurement\<close>\<close>

definition define_meas_keys :: "string list" where
  "define_meas_keys = [''maxchan'', ''maxrun'', ''maxmeas'', ''reflat'', ''reflon'', ''refelev'',
                       ''reftype'', ''units'']"

text \<open>The dictionary of one \<open>>XMEAS\<close> line, lines 1062 to 1067.\<close>

fun meas_dict :: "string list \<Rightarrow> (string \<times> pyval) list \<Rightarrow> error + (string \<times> pyval) list" where
  "meas_dict [] m = Inr m"
| "meas_dict (ll # rest) m =
     (case str_split_on (CHR ''='') ll of
        k # v # _ \<Rightarrow> meas_dict rest (AList.update (str_lower k) (PStr v) m)
      | _ \<Rightarrow> Inl IndexError)"

fun meas_scan :: "string list \<Rightarrow> nat \<Rightarrow> bool \<Rightarrow> pyval list \<Rightarrow> error + pyval list" where
  "meas_scan [] count meas_find acc = Inr acc"
| "meas_scan (line # rest) count meas_find acc =
     (if str_find line ''>='' = 0 then
        (let count' = count + 1;
             meas_find' = (0 < str_find (str_lower line) ''definemeas'')
         in if count' = 2 \<and> \<not> meas_find' then Inr acc
            else meas_scan rest count' meas_find' acc)
      else if count = 1 \<and> str_find line ''>'' \<noteq> 0 \<and> meas_find then
        (let l = str_strip line
         in meas_scan rest count meas_find (if 2 < length l then acc @ [PStr (str_strip l)] else acc))
      else if count = 1 \<and> str_find line ''>'' = 0 \<and> meas_find then
        (if 0 < str_find line ''!'' then meas_scan rest count meas_find acc
         else
           (case meas_dict (drop 1 (str_split (str_strip line))) [] of
              Inl err \<Rightarrow> Inl err
            | Inr m \<Rightarrow> meas_scan rest count meas_find (acc @ [PDict m])))
      else meas_scan rest count meas_find acc)"

definition get_measurement_lists :: "env \<Rightarrow> pyobj \<Rightarrow> world \<Rightarrow> error + (pyobj \<times> world)" where
  "get_measurement_lists ev dm w =
     bindE (getattr dm ''edi_fn'') (\<lambda>fn.
     case fn of
       PNone \<Rightarrow> Inr (dm, print ''No edi file input, check edi_fn attribute'' w)
     | PStr p \<Rightarrow>
         (let w1 = (if \<not> isfile w p then print (''Could not find '' @ p @ '', check path'') w
                    else w)
          in bindE (open_lines w1 p) (\<lambda>ls.
             bindE (meas_scan ls 0 False []) (\<lambda>ml.
             Inr (setattr dm ''measurement_list'' (PList ml), w1))))
     | _ \<Rightarrow> Inl TypeError)"

text \<open>
  One pass of the loop of \<open>read_define_measurement\<close>, lines 1104 to 1135. The local
  variable \<open>value\<close> lives across the passes; it is unbound (\<open>None\<close> here) before the
  first assignment.
\<close>

definition read_define_item ::
  "env \<Rightarrow> pyval \<Rightarrow> pyobj \<times> pyval option \<Rightarrow> error + (pyobj \<times> pyval option)" where
  "read_define_item ev line st =
     (case st of (dm, value) \<Rightarrow>
      (case line of
        PStr l \<Rightarrow>
          (case str_split_on (CHR ''='') l of
             k0 # v0 # _ \<Rightarrow>
               (let key = str_lower k0 in
                if str_in key ''reflatitude'' then
                  bindE (assert_position_format ev ''lat'' (PStr v0)) (\<lambda>v.
                  Inr (setattr dm ''reflat'' v, Some v))
                else if str_in key ''reflongitude'' then
                  bindE (assert_position_format ev ''lon'' (PStr v0)) (\<lambda>v.
                  Inr (setattr dm ''reflon'' v, Some v))
                else if str_in key ''refelevation'' then
                  bindE (assert_position_format ev ''elev'' (PStr v0)) (\<lambda>v.
                  Inr (setattr dm ''refelev'' v, Some v))
                else if str_in key ''maxchannels'' then
                  (case py_int ev v0 of
                     None \<Rightarrow> Inl ValueError
                   | Some n \<Rightarrow> Inr (setattr dm ''maxchan'' (PInt n), Some (PInt n)))
                else if str_in key ''maxmeasurements'' then
                  (case py_int ev v0 of
                     None \<Rightarrow> Inl ValueError
                   | Some n \<Rightarrow> Inr (setattr dm ''maxmeas'' (PInt n), Some (PInt n)))
                else Inr (setattr dm key (PStr v0), Some (PStr v0)))
           | _ \<Rightarrow> Inl IndexError)
      | PDict d \<Rightarrow>
          bindE (case map_of d ''id'' of
                   None \<Rightarrow> Inr ''meas_01''
                 | Some idv \<Rightarrow>
                     bindE (to_float ev idv) (\<lambda>x.
                     bindE (py_format ev (PFloat x) ''02.0f'') (\<lambda>s. Inr (''meas_'' @ s))))
            (\<lambda>key.
             (case map_of d ''chtype'' of
                None \<Rightarrow> Inl KeyError
              | Some (PStr ch) \<Rightarrow>
                  bindE (if 0 \<le> str_find (str_lower ch) ''h'' then
                           bindE (HMeasurement ev d) (\<lambda>m. Inr (Some m))
                         else if 0 \<le> str_find (str_lower ch) ''e'' then
                           bindE (EMeasurement ev d) (\<lambda>m. Inr (Some m))
                         else Inr value)
                    (\<lambda>value'.
                       (case value' of
                          None \<Rightarrow> Inl NameError
                        | Some v \<Rightarrow> Inr (setattr dm key v, Some v)))
              | Some _ \<Rightarrow> Inl AttributeError))
      | _ \<Rightarrow> Inr (dm, value)))"

fun read_define_items ::
  "env \<Rightarrow> pyval list \<Rightarrow> pyobj \<times> pyval option \<Rightarrow> error + (pyobj \<times> pyval option)" where
  "read_define_items ev [] st = Inr st"
| "read_define_items ev (line # rest) st =
     bindE (read_define_item ev line st) (read_define_items ev rest)"

definition read_define_measurement ::
  "env \<Rightarrow> pyval \<Rightarrow> pyobj \<Rightarrow> world \<Rightarrow> error + (pyobj \<times> world)" where
  "read_define_measurement ev measurement_list dm w =
     (let dm1 = (if measurement_list \<noteq> PNone
                 then setattr dm ''measurement_list'' measurement_list else dm)
      in bindE (getattr dm1 ''measurement_list'') (\<lambda>ml1.
         bindE (getattr dm1 ''edi_fn'') (\<lambda>fn.
         bindE (if ml1 = PNone \<and> fn \<noteq> PNone then get_measurement_lists ev dm1 w
                else Inr (dm1, w)) (\<lambda>(dm2, w2).
         bindE (getattr dm2 ''measurement_list'') (\<lambda>ml2.
         bindE (getattr dm2 ''edi_fn'') (\<lambda>fn2.
         if ml2 = PNone \<and> fn2 = PNone then
           Inr (dm2, print ''Nothing to read, check edi_fn or measurement_list attributes'' w2)
         else
           bindE (iter_items ml2) (\<lambda>items.
           bindE (read_define_items ev items (dm2, None)) (\<lambda>(dm3, value).
           Inr (dm3, w2)))))))))"

definition DefineMeasurement_init :: "env \<Rightarrow> pyval \<Rightarrow> world \<Rightarrow> error + (pyobj \<times> world)" where
  "DefineMeasurement_init ev fn w =
     (let dm = [(''edi_fn'', fn), (''measurement_list'', PNone), (''maxchan'', PNone),
                (''maxmeas'', PInt 7), (''maxrun'', PInt 999), (''refelev'', PNone),
                (''reflat'', PNone), (''reflon'', PNone), (''reftype'', PStr ''cartesian''),
                (''units'', PStr ''m''),
                (''_define_meas_keys'', PList (map PStr define_meas_keys))]
      in if fn \<noteq> PNone then read_define_measurement ev PNone dm w else Inr (dm, w))"

text \<open>One \<open>>XMEAS\<close> line of \<open>write_define_measurement\<close>, lines 1165 to 1179.\<close>

fun write_meas_fields :: "env \<Rightarrow> pyobj \<Rightarrow> (string \<times> string) list \<Rightarrow> error + string list" where
  "write_meas_fields ev m [] = Inr []"
| "write_meas_fields ev m ((mkey, mfmt) # rest) =
     bindE (getattr m mkey) (\<lambda>v.
     bindE (py_format ev v mfmt) (\<lambda>s.
     bindE (write_meas_fields ev m rest) (\<lambda>more.
     Inr (('' '' @ str_upper mkey @ ''='' @ s) # more))))"

definition write_meas_line :: "env \<Rightarrow> pyobj \<Rightarrow> string \<Rightarrow> error + string" where
  "write_meas_line ev dm key =
     bindE (getattr dm key) (\<lambda>m_obj.
     case m_obj of
       PObj m \<Rightarrow>
         bindE (getattr m ''chtype'') (\<lambda>chtype.
         case chtype of
           PStr ch \<Rightarrow>
             bindE (if 0 \<le> str_find (str_lower ch) ''h'' then Inr ''hmeas''
                    else if 0 \<le> str_find (str_lower ch) ''e'' then Inr ''emeas''
                    else Inl AttributeError) (\<lambda>head.
             bindE (getattr m ''_kw_list'') (\<lambda>kwv.
             bindE (iter_items kwv) (\<lambda>kwi.
             bindE (strs_of kwi) (\<lambda>kws.
             bindE (getattr m ''_fmt_list'') (\<lambda>fmv.
             bindE (iter_items fmv) (\<lambda>fmi.
             bindE (strs_of fmi) (\<lambda>fms.
             bindE (write_meas_fields ev m (zip kws fms)) (\<lambda>fields.
             Inr (concat ([''>'' @ str_upper head] @ fields @ [''\<newline>'']))))))))))
         | _ \<Rightarrow> Inl AttributeError)
     | _ \<Rightarrow> Inl AttributeError)"

fun write_meas_lines :: "env \<Rightarrow> pyobj \<Rightarrow> string list \<Rightarrow> error + string list" where
  "write_meas_lines ev dm [] = Inr []"
| "write_meas_lines ev dm (key # rest) =
     bindE (write_meas_line ev dm key) (\<lambda>l.
     bindE (write_meas_lines ev dm rest) (\<lambda>ls. Inr (l # ls)))"

text \<open>One pass of the first loop of \<open>write_define_measurement\<close>, lines 1146 to 1156.\<close>

definition write_define_key :: "env \<Rightarrow> pyobj \<Rightarrow> string \<Rightarrow> error + string" where
  "write_define_key ev dm key =
     bindE (getattr dm key) (\<lambda>value.
     bindE (if key = ''reflat'' \<or> key = ''reflon'' then
              bindE (degrees2dms_string ev value) (\<lambda>s. Inr (PStr s))
            else if key = ''refelev'' then
              bindE (py_format ev value ''.3f'') (\<lambda>s. Inr (PStr s))
            else Inr value) (\<lambda>v.
     Inr (tab @ str_upper key @ ''='' @ str_of ev v @ ''\<newline>'')))"

fun write_define_keys :: "env \<Rightarrow> pyobj \<Rightarrow> string list \<Rightarrow> error + string list" where
  "write_define_keys ev dm [] = Inr []"
| "write_define_keys ev dm (key # rest) =
     bindE (write_define_key ev dm key) (\<lambda>l.
     bindE (write_define_keys ev dm rest) (\<lambda>ls. Inr (l # ls)))"

definition write_define_measurement ::
  "env \<Rightarrow> pyval \<Rightarrow> pyobj \<Rightarrow> world \<Rightarrow> error + (string list \<times> pyobj \<times> world)" where
  "write_define_measurement ev measurement_list dm w =
     bindE (if measurement_list \<noteq> PNone then read_define_measurement ev measurement_list dm w
            else Inr (dm, w)) (\<lambda>(dm1, w1).
     bindE (getattr dm1 ''_define_meas_keys'') (\<lambda>keys.
     bindE (iter_items keys) (\<lambda>items.
     bindE (strs_of items) (\<lambda>ks.
     bindE (write_define_keys ev dm1 ks) (\<lambda>ls.
     let m_key_list = filter (\<lambda>kk. str_find kk ''meas_'' = 0) (map fst dm1);
         measurement_lines = [''>=DEFINEMEAS\<newline>\<newline>''] @ ls @ [''\<newline>'']
     in if length m_key_list = 0 then
          Inr (measurement_lines, dm1, print ''No XMEAS information.'' w1)
        else
          bindE (write_meas_lines ev dm1 (sort m_key_list)) (\<lambda>ms.
          Inr (measurement_lines @ ms, dm1, w1)))))))"

subsection \<open>\<open>DataSection\<close>\<close>

definition data_sect_kw_list :: "string list" where
  "data_sect_kw_list = [''ex'', ''ey'', ''hx'', ''hy'', ''hz'', ''nfreq'', ''sectid'', ''nchan'',
                        ''maxblks'']"

text \<open>
  The loop of \<open>get_data_sect\<close> over \<open>enumerate(fid)\<close>; it sets \<open>line_num\<close> and
  \<open>data_type\<close> on the object as it goes.
\<close>

fun data_sect_scan ::
  "string list \<Rightarrow> nat \<Rightarrow> nat \<Rightarrow> bool \<Rightarrow> pyobj \<Rightarrow> string list \<Rightarrow> pyobj \<times> string list" where
  "data_sect_scan [] ii count data_sect_find ds acc = (ds, acc)"
| "data_sect_scan (line # rest) ii count data_sect_find ds acc =
     (if str_find line ''>='' = 0 then
        (let count' = count + 1;
             low = str_lower line;
             data_sect_find' = (0 < str_find low ''sect'');
             ds' = (if data_sect_find' then
                      (let ds1 = setattr ds ''line_num'' (PInt (int ii)) in
                       if 0 < str_find low ''spect'' then setattr ds1 ''data_type'' (PStr ''spectra'')
                       else if 0 < str_find low ''mt'' then setattr ds1 ''data_type'' (PStr ''z'')
                       else ds1)
                    else ds)
         in if 2 < count' \<and> \<not> data_sect_find' then (ds', acc)
            else data_sect_scan rest (Suc ii) count' data_sect_find' ds' acc)
      else if count = 2 \<and> str_find line ''>'' \<noteq> 0 \<and> data_sect_find then
        data_sect_scan rest (Suc ii) count data_sect_find ds
          (if 2 < length (str_strip line) then acc @ [str_strip line] else acc)
      else data_sect_scan rest (Suc ii) count data_sect_find ds acc)"

definition get_data_sect :: "env \<Rightarrow> pyobj \<Rightarrow> world \<Rightarrow> error + (pyobj \<times> world)" where
  "get_data_sect ev ds w =
     bindE (getattr ds ''edi_fn'') (\<lambda>fn.
     case fn of
       PNone \<Rightarrow> Inl (MTpyError_EDI ''No edi file to read. Check edi_fn'')
     | PStr p \<Rightarrow>
         if \<not> isfile w p then
           Inl (MTpyError_EDI (''Could not find '' @ p @ ''. Check path''))
         else
           bindE (open_lines w p) (\<lambda>ls.
           case data_sect_scan ls 0 0 False ds [] of (ds1, acc) \<Rightarrow>
             Inr (setattr ds1 ''data_sect_list'' (PList (map PStr acc)), w))
     | _ \<Rightarrow> Inl TypeError)"

text \<open>One pass of the loop of \<open>read_data_sect\<close>, lines 1397 to 1406.\<close>

definition read_data_sect_line :: "env \<Rightarrow> pyval \<Rightarrow> pyobj \<Rightarrow> error + pyobj" where
  "read_data_sect_line ev item ds =
     (case item of
        PStr d_line \<Rightarrow>
          (case str_split_on (CHR ''='') d_line of
             k0 # v0 # _ \<Rightarrow>
               Inr (setattr ds (str_lower k0)
                      (case py_int ev (str_strip v0) of
                         Some n \<Rightarrow> PInt n
                       | None \<Rightarrow> PStr (str_remove (CHR 0x22) (str_strip v0))))
           | _ \<Rightarrow> Inr ds)
      | _ \<Rightarrow> Inl AttributeError)"

fun read_data_sect_lines :: "env \<Rightarrow> pyval list \<Rightarrow> pyobj \<Rightarrow> error + pyobj" where
  "read_data_sect_lines ev [] ds = Inr ds"
| "read_data_sect_lines ev (item # rest) ds =
     bindE (read_data_sect_line ev item ds) (read_data_sect_lines ev rest)"

definition read_data_sect :: "env \<Rightarrow> pyval \<Rightarrow> pyobj \<Rightarrow> world \<Rightarrow> error + (pyobj \<times> world)" where
  "read_data_sect ev data_sect_list ds w =
     (let ds1 = (if data_sect_list \<noteq> PNone
                 then setattr ds ''data_sect_list'' data_sect_list else ds)
      in bindE (getattr ds1 ''edi_fn'') (\<lambda>fn.
         bindE (getattr ds1 ''data_sect_list'') (\<lambda>dl.
         bindE (if fn \<noteq> PNone \<and> dl = PNone then get_data_sect ev ds1 w else Inr (ds1, w))
           (\<lambda>(ds2, w2).
         bindE (getattr ds2 ''data_sect_list'') (\<lambda>dl2.
         bindE (iter_items dl2) (\<lambda>items.
         bindE (read_data_sect_lines ev items ds2) (\<lambda>ds3.
         Inr (ds3, w2))))))))"

definition DataSection_init :: "env \<Rightarrow> pyval \<Rightarrow> world \<Rightarrow> error + (pyobj \<times> world)" where
  "DataSection_init ev fn w =
     (let ds = [(''edi_fn'', fn), (''data_type'', PStr ''z''), (''line_num'', PInt 0),
                (''data_sect_list'', PNone),
                (''_kw_list'', PList (map PStr data_sect_kw_list))]
               @ map (\<lambda>key. (key, PNone)) data_sect_kw_list
      in if fn \<noteq> PNone then read_data_sect ev PNone ds w else Inr (ds, w))"

fun write_data_sect_keys :: "env \<Rightarrow> pyobj \<Rightarrow> string list \<Rightarrow> error + string list" where
  "write_data_sect_keys ev ds [] = Inr []"
| "write_data_sect_keys ev ds (key # rest) =
     bindE (getattr ds key) (\<lambda>v.
     bindE (write_data_sect_keys ev ds rest) (\<lambda>ls.
     Inr ((tab @ str_upper key @ ''='' @ str_of ev v @ ''\<newline>'') # ls)))"

definition write_data_sect ::
  "env \<Rightarrow> pyval \<Rightarrow> pyobj \<Rightarrow> world \<Rightarrow> error + (string list \<times> pyobj \<times> world)" where
  "write_data_sect ev data_sect_list ds w =
     bindE (if data_sect_list \<noteq> PNone then read_data_sect ev data_sect_list ds w
            else Inr (ds, w)) (\<lambda>(ds1, w1).
     bindE (getattr ds1 ''data_type'') (\<lambda>data_type.
     bindE (if data_type = PStr ''z'' then Inr [''\<newline>>=MTSECT\<newline>'']
            else if data_type = PStr ''spectra'' then Inr [''\<newline>>=SPECTRASECT\<newline>'']
            else Inl NameError) (\<lambda>data_sect_lines.
     bindE (getattr ds1 ''_kw_list'') (\<lambda>kw.
     bindE (iter_items kw) (\<lambda>items.
     bindE (strs_of items) (\<lambda>ks.
     bindE (write_data_sect_keys ev ds1 ks) (\<lambda>ls.
     Inr (data_sect_lines @ ls @ [''\<newline>''], ds1, w1))))))))"

section \<open>Reading and writing a document\<close>

definition Edi_init_empty :: "env \<Rightarrow> world \<Rightarrow> error + (Edi \<times> world)" where
  "Edi_init_empty ev w =
     bindE (Header_init ev PNone w) (\<lambda>(h, w1).
     bindE (Information_init ev PNone w1) (\<lambda>(i, w2).
     bindE (DefineMeasurement_init ev PNone w2) (\<lambda>(dm, w3).
     bindE (DataSection_init ev PNone w3) (\<lambda>(ds, w4).
     Inr (\<lparr>edi_fn = PNone, Header = h, Info = i, Define_measurement = dm, Data_sect = ds,
           Z = new_Z ev, Tipper = new_Tipper ev\<rparr>, w4)))))"

text \<open>
  One of the three conditionals of lines 176 to 184: a Header field that is \<open>None\<close>
  takes the value of the reference field of the measurement section.
\<close>

definition backfill ::
  "env \<Rightarrow> string \<Rightarrow> string \<Rightarrow> string \<Rightarrow> Edi \<Rightarrow> world \<Rightarrow> error + (Edi \<times> world)" where
  "backfill ev field ref msg e w =
     bindE (getattr (Header e) field) (\<lambda>cur.
     if cur = PNone then
       bindE (getattr (Define_measurement e) ref) (\<lambda>r.
       bindE (getattr (setattr (Header e) field r) ''dataid'') (\<lambda>dataid.
       Inr (e\<lparr>Header := setattr (Header e) field r\<rparr>, print (msg @ str_of ev dataid) w)))
     else Inr (e, w))"

definition read_edi_file :: "env \<Rightarrow> pyval \<Rightarrow> Edi \<Rightarrow> world \<Rightarrow> error + (Edi \<times> world)" where
  "read_edi_file ev fn_arg e w =
     (let e0 = (if fn_arg \<noteq> PNone then e\<lparr>edi_fn := fn_arg\<rparr> else e) in
      case edi_fn e0 of
        PNone \<Rightarrow> Inl (MTpyError_EDI ''No edi file input, check edi_fn'')
      | PStr p \<Rightarrow>
          if \<not> isfile w p then Inl (MTpyError_EDI (''Could not find '' @ p @ '', check path''))
          else
            bindE (Header_init ev (PStr p) w) (\<lambda>(h, w1).
            bindE (Information_init ev (PStr p) w1) (\<lambda>(i, w2).
            bindE (DefineMeasurement_init ev (PStr p) w2) (\<lambda>(dm, w3).
            bindE (DataSection_init ev (PStr p) w3) (\<lambda>(ds, w4).
            bindE (read_data ev (e0\<lparr>Header := h, Info := i, Define_measurement := dm,
                                   Data_sect := ds\<rparr>) w4) (\<lambda>(e1, w5).
            bindE (backfill ev ''lat'' ''reflat'' ''Got latitude from reflat for '' e1 w5)
              (\<lambda>(e2, w6).
            bindE (backfill ev ''lon'' ''reflon'' ''Got longitude from reflon for '' e2 w6)
              (\<lambda>(e3, w7).
            bindE (backfill ev ''elev'' ''refelev'' ''Got elevation from refelev for '' e3 w7)
              (\<lambda>(e4, w8).
            bindE (getattr (Header e4) ''dataid'') (\<lambda>dataid.
            Inr (e4, print (''Read in edi file for station '' @ str_of ev dataid) w8))))))))))
      | _ \<Rightarrow> Inl TypeError)"

definition Edi_init :: "env \<Rightarrow> pyval \<Rightarrow> world \<Rightarrow> error + (Edi \<times> world)" where
  "Edi_init ev fn w =
     bindE (Edi_init_empty ev w) (\<lambda>(e, w1).
     if fn \<noteq> PNone then read_edi_file ev PNone (e\<lparr>edi_fn := fn\<rparr>) w1
     else Inr (e, w1))"

definition z_labels :: "string list list" where
  "z_labels = [[''zxxr'', ''zxxi'', ''zxx.var''], [''zxyr'', ''zxyi'', ''zxy.var''],
               [''zyxr'', ''zyxi'', ''zyx.var''], [''zyyr'', ''zyyi'', ''zyy.var'']]"

definition t_labels :: "string list list" where
  "t_labels = [[''txr.exp'', ''txi.exp'', ''txvar.exp''], [''tyr.exp'', ''tyi.exp'', ''tyvar.exp'']]"

definition data_header_str :: "string \<Rightarrow> string" where
  "data_header_str name = ''!****'' @ name @ ''****!\<newline>''"

text \<open>\<open>a[:, i, j]\<close> of an array with three axes.\<close>

definition column :: "'a list list list \<Rightarrow> nat \<Rightarrow> nat \<Rightarrow> error + 'a list" where
  "column a i j =
     (if \<forall>m \<in> set a. i < length m \<and> j < length (m ! i) then Inr (map (\<lambda>m. m ! i ! j) a)
      else Inl IndexError)"

text \<open>\<open>os.path.join(a, b)\<close> on POSIX paths.\<close>

definition path_join :: "string \<Rightarrow> string \<Rightarrow> string" where
  "path_join a b =
     (if take 1 b = ''/'' then b
      else if a = [] \<or> last a = CHR ''/'' then a @ b
      else a @ ''/'' @ b)"

text \<open>An unset array has no elements to index and no \<open>size\<close>.\<close>

definition the_array :: "'a option \<Rightarrow> error \<Rightarrow> error + 'a" where
  "the_array a err = (case a of None \<Rightarrow> Inl err | Some x \<Rightarrow> Inr x)"

text \<open>The three blocks of one tensor entry, lines 341 to 350 and 363 to 372.\<close>

definition write_entry_blocks ::
  "env \<Rightarrow> Edi \<Rightarrow> complex list list list option \<Rightarrow> real list list list option \<Rightarrow> nat \<Rightarrow> nat
    \<Rightarrow> string list \<Rightarrow> error + string list" where
  "write_entry_blocks ev e a aerr i j labels =
     bindE (the_array a TypeError) (\<lambda>arr.
     bindE (column arr i j) (\<lambda>c.
     bindE (write_data_block ev e (map Re c) (labels ! 0)) (\<lambda>lines_real.
     bindE (write_data_block ev e (map Im c) (labels ! 1)) (\<lambda>lines_imag.
     bindE (the_array aerr TypeError) (\<lambda>err_arr.
     bindE (column err_arr i j) (\<lambda>v.
     bindE (write_data_block ev e v (labels ! 2)) (\<lambda>lines_var.
     Inr (lines_real @ lines_imag @ lines_var))))))))"

definition write_z_blocks :: "env \<Rightarrow> Edi \<Rightarrow> error + string list" where
  "write_z_blocks ev e =
     bindE (write_entry_blocks ev e (Z_z (Z e)) (Z_zerr (Z e)) 0 0 (z_labels ! 0)) (\<lambda>b0.
     bindE (write_entry_blocks ev e (Z_z (Z e)) (Z_zerr (Z e)) 0 1 (z_labels ! 1)) (\<lambda>b1.
     bindE (write_entry_blocks ev e (Z_z (Z e)) (Z_zerr (Z e)) 1 0 (z_labels ! 2)) (\<lambda>b2.
     bindE (write_entry_blocks ev e (Z_z (Z e)) (Z_zerr (Z e)) 1 1 (z_labels ! 3)) (\<lambda>b3.
     Inr (b0 @ b1 @ b2 @ b3)))))"

definition write_t_blocks :: "env \<Rightarrow> Edi \<Rightarrow> error + string list" where
  "write_t_blocks ev e =
     bindE (write_entry_blocks ev e (T_tipper (Tipper e)) (T_tippererr (Tipper e)) 0 0
              (t_labels ! 0)) (\<lambda>b0.
     bindE (write_entry_blocks ev e (T_tipper (Tipper e)) (T_tippererr (Tipper e)) 0 1
              (t_labels ! 1)) (\<lambda>b1.
     Inr (b0 @ b1)))"

text \<open>Lines 330 to 382: the blocks after the four sections, and the end marker.\<close>

definition write_data_lines :: "env \<Rightarrow> Edi \<Rightarrow> error + string list" where
  "write_data_lines ev e =
     bindE (the_array (Z_freq (Z e)) AttributeError) (\<lambda>freq.
     bindE (write_data_block ev e freq ''freq'') (\<lambda>fl.
     bindE (case Z_rotation_angle (Z e) of
              RotArray xs \<Rightarrow> Inr xs
            | _ \<Rightarrow> Inl AttributeError) (\<lambda>zrot.
     bindE (write_data_block ev e zrot ''zrot'') (\<lambda>zl.
     bindE (write_z_blocks ev e) (\<lambda>z_blocks.
     bindE (case T_rotation_angle (Tipper e) of
              RotFloat x \<Rightarrow>
                bindE (the_array (T_freq (Tipper e)) AttributeError) (\<lambda>tf.
                Inr (replicate (length tf) x))
            | RotArray xs \<Rightarrow> Inr xs
            | RotNone \<Rightarrow> Inl AttributeError) (\<lambda>trot.
     bindE (write_data_block ev e trot ''trot'') (\<lambda>tl.
     bindE (write_t_blocks ev e) (\<lambda>t_blocks.
     Inr ([data_header_str ''FREQUENCIES''] @ fl
          @ [data_header_str ''IMPEDANCE ROTATION ANGLES''] @ zl
          @ [data_header_str ''IMPEDANCES''] @ z_blocks
          @ [data_header_str ''TIPPER ROTATION ANGLES''] @ tl
          @ [data_header_str ''TIPPER''] @ t_blocks
          @ [''>END''])))))))))"

definition write_edi_file ::
  "env \<Rightarrow> pyval \<Rightarrow> Edi \<Rightarrow> world \<Rightarrow> error + (string \<times> Edi \<times> world)" where
  "write_edi_file ev new_edi_fn e w =
     bindE (if new_edi_fn = PNone then
              (if edi_fn e \<noteq> PNone then Inr (edi_fn e)
               else
                 bindE (getattr (Header e) ''dataid'') (\<lambda>dataid.
                 Inr (PStr (path_join (getcwd ev) (str_of ev dataid @ ''.edi'')))))
            else Inr new_edi_fn) (\<lambda>target.
     case target of
       PStr p \<Rightarrow>
         (let new_fn = make_unique_filename ev (files w) p in
          bindE (getattr (Header e) ''dataid'') (\<lambda>dataid.
          bindE (if dataid = PNone then read_edi_file ev PNone e w else Inr (e, w))
            (\<lambda>(e1, w1).
          bindE (write_header ev PNone (Header e1) w1) (\<lambda>(header_lines, h, w2).
          bindE (write_info ev PNone (Info e1)) (\<lambda>(info_lines, i).
          bindE (write_define_measurement ev PNone (Define_measurement e1) w2)
            (\<lambda>(define_lines, dm, w3).
          bindE (write_data_sect ev PNone (Data_sect e1) w3) (\<lambda>(dsect_lines, ds, w4).
          let e2 = e1\<lparr>Header := h, Info := i, Define_measurement := dm, Data_sect := ds\<rparr> in
          bindE (write_data_lines ev e2) (\<lambda>data_lines.
          let edi_lines = header_lines @ info_lines @ define_lines @ dsect_lines @ data_lines
          in Inr (new_fn, e2,
                  print (''Wrote '' @ new_fn)
                    (w4\<lparr>files := (files w4)(new_fn \<mapsto> concat edi_lines)\<rparr>))))))))))
     | _ \<Rightarrow> Inl TypeError)"

section \<open>The position codec\<close>


datatype position_kind = Latitude | Longitude | Elevation












text \<open>An array of shape \<open>(n, r, c)\<close>.\<close>

definition shape3 :: "'a list list list \<Rightarrow> nat \<Rightarrow> nat \<Rightarrow> nat \<Rightarrow> bool" where
  "shape3 a n r c \<longleftrightarrow>
     length a = n \<and> (\<forall>m \<in> set a. length m = r \<and> (\<forall>row \<in> set m. length row = c))"

section \<open>Notions used in the properties\<close>

text \<open>
  The invariant of the scan: while \<open>data_find\<close> is set, the label of the current
  block is bound and the block is in the dictionary.
\<close>

definition scan_inv :: "mt_scan \<Rightarrow> bool" where
  "scan_inv st \<longleftrightarrow> (data_find st \<longrightarrow> (\<exists>k xs. scan_key st = Some k \<and> data_dict st k = Some xs))"

section \<open>A concrete document\<close>

text \<open>
  The values below are the inputs of the closed theorems: a few small files, and the
  builtins of the environment as tables of their values at the strings and numbers
  that occur in these files.
\<close>

definition demo_floats :: "(string \<times> real) list" where
  "demo_floats = [(''10.0'', 10), (''1.0'', 1), (''2.0'', 2), (''0.5'', 1 / 2), (''1.0e+32'', 10 ^ 32)]"

definition demo_positions :: "(string \<times> real) list" where
  "demo_positions = [(''-30.5'', - (61 / 2)), (''139.5'', 279 / 2), (''140.0'', 140), (''100'', 100)]"

definition demo_format_float :: "string \<Rightarrow> real \<Rightarrow> string" where
  "demo_format_float spec x =
     (if spec = ''.0f'' then
        (if x = 0 then ''0'' else if x = 1 then ''1'' else if x = 2 then ''2'' else ''?'')
      else if spec = '' 15.6e'' then
        (if x = 10 ^ 32 then ''   1.000000e+32''
         else if x = 0 then ''   0.000000e+00''
         else if x = 1 / 2 then ''   5.000000e-01''
         else if x = 1 then ''   1.000000e+00''
         else if x = 2 then ''   2.000000e+00''
         else if x = 10 then ''   1.000000e+01''
         else ''?'')
      else ''?'')"

definition demo_str :: "pyval \<Rightarrow> string" where
  "demo_str v =
     (case v of
        PInt n \<Rightarrow> (if n = 2 then ''2'' else if n = 7 then ''7'' else if n = 999 then ''999'' else ''?'')
      | PFloat x \<Rightarrow> (if x = 10 ^ 32 then ''1e+32'' else ''?'')
      | _ \<Rightarrow> ''?'')"

definition demo_dms :: "pyval \<Rightarrow> error + string" where
  "demo_dms v =
     (case v of
        PFloat x \<Rightarrow>
          (if x = - (61 / 2) then Inr ''-30:30:00.00''
           else if x = 279 / 2 then Inr ''139:30:00.00''
           else if x = 140 then Inr ''140:00:00.00''
           else Inl ValueError)
      | _ \<Rightarrow> Inl TypeError)"

definition demo_env :: env where
  "demo_env = \<lparr>
     py_float = map_of demo_floats,
     py_int = map_of [(''2'', 2)],
     py_str = demo_str,
     py_format = (\<lambda>v spec. if v = PFloat 100 \<and> spec = ''.3f'' then Inr ''100.000''
                              else Inl ValueError),
     format_float = demo_format_float,
     utcnow = ''2016/04/11 19:37:37 UTC'',
     getcwd = ''/home/mt'',
     assert_position_format = (\<lambda>kind v. case v of
         PStr s \<Rightarrow> (case map_of demo_positions s of
                      None \<Rightarrow> Inl ValueError
                    | Some x \<Rightarrow> Inr (PFloat x))
       | _ \<Rightarrow> Inl ValueError),
     degrees2dms_string = demo_dms,
     make_unique_filename = (\<lambda>fs p. if fs p = None then p else ''/data/mt01_1.edi''),
     new_Z = \<lparr>Z_freq = None, Z_z = None, Z_zerr = None, Z_rotation_angle = RotNone\<rparr>,
     new_Tipper = \<lparr>T_freq = None, T_tipper = None, T_tippererr = None,
                    T_rotation_angle = RotNone\<rparr>\<rparr>"

definition demo_head_lines :: "string list" where
  "demo_head_lines = [
     ''>HEAD\<newline>'',
     ''    DATAID=mt01\<newline>'',
     ''    LON=140.0\<newline>'',
     ''>INFO\<newline>'',
     ''    survey one\<newline>'',
     ''>=DEFINEMEAS\<newline>'',
     ''    REFLAT=-30.5\<newline>'',
     ''    REFLONG=139.5\<newline>'',
     ''    REFELEV=100\<newline>'',
     ''>=MTSECT\<newline>'',
     ''    NFREQ=2\<newline>'']"

definition demo_data_lines :: "string list" where
  "demo_data_lines = [
     ''>FREQ // 2\<newline>'',
     '' 10.0 1.0\<newline>'',
     ''>ZXXR ROT=ZROT // 2\<newline>'',
     '' 1.0 2.0\<newline>'',
     ''>ZXXI ROT=ZROT // 2\<newline>'',
     '' 0.5 0.5\<newline>'',
     ''>ZXX.VAR ROT=ZROT // 2\<newline>'',
     '' 1.0e+32 ****\<newline>'',
     ''>ZXYR ROT=ZROT // 2\<newline>'',
     '' 1.0 2.0\<newline>'',
     ''>ZXYI ROT=ZROT // 2\<newline>'',
     '' 0.5 0.5\<newline>'',
     ''>ZXY.VAR ROT=ZROT // 2\<newline>'',
     '' 0.5 0.5\<newline>'',
     ''>ZYXR ROT=ZROT // 2\<newline>'',
     '' 1.0 2.0\<newline>'',
     ''>ZYXI ROT=ZROT // 2\<newline>'',
     '' 0.5 0.5\<newline>'',
     ''>ZYX.VAR ROT=ZROT // 2\<newline>'',
     '' 0.5 0.5\<newline>'',
     ''>ZYYR ROT=ZROT // 2\<newline>'',
     '' 1.0 2.0\<newline>'',
     ''>ZYYI ROT=ZROT // 2\<newline>'',
     '' 0.5 0.5\<newline>'',
     ''>ZYY.VAR ROT=ZROT // 2\<newline>'',
     '' 0.5 0.5\<newline>'',
     ''>END\<newline>'']"

definition demo_text :: string where
  "demo_text = concat (demo_head_lines @ demo_data_lines)"

definition demo_world :: world where
  "demo_world = \<lparr>files = [''/data/mt01.edi'' \<mapsto> demo_text], stdout = []\<rparr>"

definition demo_dict :: "string \<rightharpoonup> real list" where
  "demo_dict = [''freq'' \<mapsto> [10, 1],
     ''zxxr'' \<mapsto> [1, 2], ''zxxi'' \<mapsto> [1 / 2, 1 / 2], ''zxx.var'' \<mapsto> [0, 0],
     ''zxyr'' \<mapsto> [1, 2], ''zxyi'' \<mapsto> [1 / 2, 1 / 2], ''zxy.var'' \<mapsto> [1 / 2, 1 / 2],
     ''zyxr'' \<mapsto> [1, 2], ''zyxi'' \<mapsto> [1 / 2, 1 / 2], ''zyx.var'' \<mapsto> [1 / 2, 1 / 2],
     ''zyyr'' \<mapsto> [1, 2], ''zyyi'' \<mapsto> [1 / 2, 1 / 2], ''zyy.var'' \<mapsto> [1 / 2, 1 / 2]]"

definition demo_header :: pyobj where
  "demo_header =
     [(''edi_fn'', PStr ''/data/mt01.edi''), (''dataid'', PStr ''mt01''), (''acqby'', PNone),
      (''fileby'', PNone), (''acqdate'', PNone), (''units'', PNone),
      (''filedate'', PStr ''2016/04/11 19:37:37 UTC''), (''loc'', PNone), (''lat'', PNone),
      (''lon'', PFloat 140), (''elev'', PNone), (''empty'', PFloat (10 ^ 32)),
      (''progvers'', PNone), (''progdate'', PNone), (''phoenix_edi'', PBool False),
      (''header_list'', PList [PStr ''DATAID=mt01'', PStr ''LON=140.0'']),
      (''_header_keys'', PList (map PStr header_keys))]"

definition demo_info :: pyobj where
  "demo_info = [(''edi_fn'', PStr ''/data/mt01.edi''), (''info_list'', PList [PStr ''survey one''])]"

definition demo_define :: pyobj where
  "demo_define =
     [(''edi_fn'', PStr ''/data/mt01.edi''),
      (''measurement_list'',
         PList [PStr ''REFLAT=-30.5'', PStr ''REFLONG=139.5'', PStr ''REFELEV=100'']),
      (''maxchan'', PNone), (''maxmeas'', PInt 7), (''maxrun'', PInt 999),
      (''refelev'', PFloat 100), (''reflat'', PFloat (- (61 / 2))), (''reflon'', PFloat (279 / 2)),
      (''reftype'', PStr ''cartesian''), (''units'', PStr ''m''),
      (''_define_meas_keys'', PList (map PStr define_meas_keys))]"

definition demo_data_sect :: pyobj where
  "demo_data_sect =
     [(''edi_fn'', PStr ''/data/mt01.edi''), (''data_type'', PStr ''z''), (''line_num'', PInt 9),
      (''data_sect_list'',
         PList (map PStr [''NFREQ=2'', ''10.0 1.0'', ''1.0 2.0'', ''0.5 0.5'', ''1.0e+32 ****'',
           ''1.0 2.0'', ''0.5 0.5'', ''0.5 0.5'', ''1.0 2.0'', ''0.5 0.5'', ''0.5 0.5'', ''1.0 2.0'',
           ''0.5 0.5'', ''0.5 0.5''])),
      (''_kw_list'', PList (map PStr data_sect_kw_list)),
      (''ex'', PNone), (''ey'', PNone), (''hx'', PNone), (''hy'', PNone), (''hz'', PNone),
      (''nfreq'', PInt 2), (''sectid'', PNone), (''nchan'', PNone), (''maxblks'', PNone)]"

definition demo_edi :: Edi where
  "demo_edi = \<lparr>edi_fn = PStr ''/data/mt01.edi'', Header = demo_header, Info = demo_info,
     Define_measurement = demo_define, Data_sect = demo_data_sect,
     Z = new_Z demo_env, Tipper = new_Tipper demo_env\<rparr>"

definition demo_Z :: Zobj where
  "demo_Z = \<lparr>Z_freq = Some [10, 1],
     Z_z = Some [[[Complex 1 (1 / 2), Complex 1 (1 / 2)], [Complex 1 (1 / 2), Complex 1 (1 / 2)]],
                 [[Complex 2 (1 / 2), Complex 2 (1 / 2)], [Complex 2 (1 / 2), Complex 2 (1 / 2)]]],
     Z_zerr = Some [[[0, 1 / 2], [1 / 2, 1 / 2]], [[0, 1 / 2], [1 / 2, 1 / 2]]],
     Z_rotation_angle = RotNone\<rparr>"

definition demo_Tipper :: Tobj where
  "demo_Tipper = \<lparr>T_freq = Some [10, 1],
     T_tipper = Some [[[0, 0]], [[0, 0]]],
     T_tippererr = Some [[[0, 0]], [[0, 0]]],
     T_rotation_angle = RotNone\<rparr>"




definition demo_spectra_lines :: "string list" where
  "demo_spectra_lines = [
     ''>HEAD\<newline>'',
     ''    DATAID=sp01\<newline>'',
     ''>INFO\<newline>'',
     ''>=DEFINEMEAS\<newline>'',
     ''>=SPECTRASECT\<newline>'',
     ''    NFREQ=2\<newline>'',
     ''>SPECTRA FREQ=10.0 ROTSPEC=0 // 4\<newline>'',
     '' 1.0 2.0 0.5 0.5\<newline>'',
     ''>END\<newline>'']"

definition spectra_world :: world where
  "spectra_world = \<lparr>files = [''/data/sp01.edi'' \<mapsto> concat demo_spectra_lines], stdout = []\<rparr>"

definition spectra_data_sect :: pyobj where
  "spectra_data_sect =
     [(''edi_fn'', PStr ''/data/sp01.edi''), (''data_type'', PStr ''spectra''),
      (''line_num'', PInt 4),
      (''data_sect_list'', PList [PStr ''NFREQ=2'', PStr ''1.0 2.0 0.5 0.5'']),
      (''_kw_list'', PList (map PStr data_sect_kw_list)),
      (''ex'', PNone), (''ey'', PNone), (''hx'', PNone), (''hy'', PNone), (''hz'', PNone),
      (''nfreq'', PInt 2), (''sectid'', PNone), (''nchan'', PNone), (''maxblks'', PNone)]"

definition spectra_edi :: Edi where
  "spectra_edi = \<lparr>edi_fn = PStr ''/data/sp01.edi'', Header = [], Info = [],
     Define_measurement = [], Data_sect = spectra_data_sect,
     Z = new_Z demo_env, Tipper = new_Tipper demo_env\<rparr>"

definition demo_result :: Edi where
  "demo_result = demo_edi\<lparr>
     Header := setattr (setattr demo_header ''lat'' (PFloat (- (61 / 2)))) ''elev'' (PFloat 100),
     Z := demo_Z, Tipper := demo_Tipper\<rparr>"

definition demo_doc :: Edi where
  "demo_doc = demo_result\<lparr>
     Z := demo_Z\<lparr>Z_rotation_angle := RotArray [0, 0]\<rparr>,
     Tipper := demo_Tipper\<lparr>T_rotation_angle := RotFloat 0\<rparr>\<rparr>"

section \<open>Properties\<close>

subsection \<open>Error results\<close>

lemma bindE_Inr [simp]: "bindE (Inr x) f = f x" by (simp add: bindE_def)

lemma bindE_Inl [simp]: "bindE (Inl e) f = Inl e" by (simp add: bindE_def)

lemma bindE_eq_Inr: "bindE m f = Inr y \<longleftrightarrow> (\<exists>x. m = Inr x \<and> f x = Inr y)"
  by (cases m) simp_all

subsection \<open>Shapes of the decoded arrays\<close>

lemma shape3_zeros: "shape3 (np_zeros3 n r c) n r c"
  by (simp add: shape3_def np_zeros3_def)

lemma np_zeros_shape_PInt:
  "np_zeros_shape (PInt k) r c = Inr a \<Longrightarrow> 0 \<le> k \<and> a = np_zeros3 (nat k) r c"
  by (simp add: np_zeros_shape_def split: if_splits)

lemma shape3_set_entry:
  assumes "length m = r" and "\<forall>row \<in> set m. length row = c"
  shows "length (set_entry i j m x) = r \<and> (\<forall>row \<in> set (set_entry i j m x). length row = c)"
proof (cases "i < length m")
  case True
  then have "m ! i \<in> set m" by simp
  with assms(2) have "length ((m ! i)[j := x]) = c" by simp
  moreover have "set (m[i := (m ! i)[j := x]]) \<subseteq> insert ((m ! i)[j := x]) (set m)"
    by (rule set_update_subset_insert)
  ultimately show ?thesis using assms by (auto simp: set_entry_def)
next
  case False
  then have "m[i := (m ! i)[j := x]] = m" by (simp add: list_update_beyond)
  then show ?thesis using assms by (simp add: set_entry_def)
qed

lemma shape3_assign_column:
  assumes "assign_column a i j v = Inr a'" and "shape3 a n r c"
  shows "shape3 a' n r c"
proof -
  have rows: "length (set_entry i j m x) = r \<and> (\<forall>row \<in> set (set_entry i j m x). length row = c)"
    if "m \<in> set a" for m x
    using that assms(2) shape3_set_entry [of m r c i j x] by (simp add: shape3_def)
  have "a' = map2 (set_entry i j) a v \<and> length v = length a \<or> a' = map (\<lambda>m. set_entry i j m (hd v)) a"
    using assms(1) by (auto simp: assign_column_def split: if_splits)
  then show ?thesis
  proof
    assume h: "a' = map2 (set_entry i j) a v \<and> length v = length a"
    have "\<forall>m' \<in> set a'. length m' = r \<and> (\<forall>row \<in> set m'. length row = c)"
    proof
      fix m' assume "m' \<in> set a'"
      with h obtain m x where mx: "(m, x) \<in> set (zip a v)" and m': "m' = set_entry i j m x"
        by auto
      from mx have "m \<in> set a" by (rule set_zip_leftD)
      with m' rows show "length m' = r \<and> (\<forall>row \<in> set m'. length row = c)" by simp
    qed
    with h assms(2) show ?thesis by (simp add: shape3_def)
  next
    assume h: "a' = map (\<lambda>m. set_entry i j m (hd v)) a"
    have "\<forall>m' \<in> set a'. length m' = r \<and> (\<forall>row \<in> set m'. length row = c)"
    proof
      fix m' assume "m' \<in> set a'"
      with h obtain m where "m \<in> set a" "m' = set_entry i j m (hd v)" by auto
      with rows show "length m' = r \<and> (\<forall>row \<in> set m'. length row = c)" by simp
    qed
    with h assms(2) show ?thesis by (simp add: shape3_def)
  qed
qed

lemma shape3_fill_complex:
  "fill_complex d re im i j a = Inr a' \<Longrightarrow> shape3 a n r c \<Longrightarrow> shape3 a' n r c"
  by (auto simp: fill_complex_def bindE_eq_Inr dest: shape3_assign_column)

lemma shape3_fill_real:
  "fill_real d k i j a = Inr a' \<Longrightarrow> shape3 a n r c \<Longrightarrow> shape3 a' n r c"
  by (auto simp: fill_real_def bindE_eq_Inr dest: shape3_assign_column)

lemma read_mt_impedance_shape:
  assumes "read_mt_impedance d dsect zo = Inr zo'"
    and "map_of dsect ''nfreq'' = Some (PInt k)"
  shows "\<exists>fr zz ze. d ''freq'' = Some fr \<and> Z_freq zo' = Some fr \<and> Z_z zo' = Some zz \<and>
           Z_zerr zo' = Some ze \<and> 0 \<le> k \<and> shape3 zz (nat k) 2 2 \<and> shape3 ze (nat k) 2 2"
proof -
  from assms obtain fr z0 ze0 z1 z2 z3 z4 e1 e2 e3 e4 where
    fr: "d ''freq'' = Some fr"
    and z0: "np_zeros_shape (PInt k) 2 2 = Inr z0"
    and ze0: "np_zeros_shape (PInt k) 2 2 = Inr ze0"
    and z: "fill_complex d ''zxxr'' ''zxxi'' 0 0 z0 = Inr z1"
       "fill_complex d ''zxyr'' ''zxyi'' 0 1 z1 = Inr z2"
       "fill_complex d ''zyxr'' ''zyxi'' 1 0 z2 = Inr z3"
       "fill_complex d ''zyyr'' ''zyyi'' 1 1 z3 = Inr z4"
    and e: "fill_real d ''zxx.var'' 0 0 ze0 = Inr e1"
       "fill_real d ''zxy.var'' 0 1 e1 = Inr e2"
       "fill_real d ''zyx.var'' 1 0 e2 = Inr e3"
       "fill_real d ''zyy.var'' 1 1 e3 = Inr e4"
    and res: "zo' = zo\<lparr>Z_freq := Some fr, Z_z := Some z4, Z_zerr := Some e4\<rparr>"
    unfolding read_mt_impedance_def bindE_eq_Inr getattr_def dict_get_def
    by (auto split: option.splits)
  from z0 have k: "0 \<le> k" and s0: "shape3 z0 (nat k) 2 2"
    using np_zeros_shape_PInt [of k 2 2 z0] by (simp_all add: shape3_zeros)
  from ze0 have t0: "shape3 ze0 (nat k) 2 2"
    using np_zeros_shape_PInt [of k 2 2 ze0] by (simp add: shape3_zeros)
  have "shape3 z4 (nat k) 2 2"
    using z s0 by (blast intro: shape3_fill_complex)
  moreover have "shape3 e4 (nat k) 2 2"
    using e t0 by (blast intro: shape3_fill_real)
  ultimately show ?thesis using fr res k by simp
qed


lemma column_shape3:
  "shape3 a n r c \<Longrightarrow> i < r \<Longrightarrow> j < c \<Longrightarrow> \<exists>col. column a i j = Inr col \<and> length col = n"
  by (auto simp: shape3_def column_def)


text \<open>
  C3. When the data lines hold no block \<open>txr.exp\<close> and the frequency and impedance
  blocks decode, \<open>_read_mt\<close> returns without an exception, \<open>Tipper.tipper\<close> and
  \<open>Tipper.tippererr\<close> are the zero arrays of shape \<open>(nfreq, 1, 2)\<close>, and the one effect
  besides is the printed line \<open>Could not find any Tipper data.\<close>
\<close>

theorem read_mt_missing_tipper:
  assumes "read_mt_scan ev data_lines mt_scan_init = Inr st"
    and "''txr.exp'' \<notin> dom (data_dict st)"
    and "read_mt_impedance (data_dict st) (Data_sect e) (Z e) = Inr zo"
    and "getattr (Data_sect e) ''nfreq'' = Inr (PInt n)"
  shows "\<exists>fr. read_mt ev data_lines e w =
           Inr (e\<lparr>Z := zo,
                  Tipper := (Tipper e)\<lparr>T_freq := Some fr,
                    T_tipper := Some (replicate (nat n) [[0, 0]]),
                    T_tippererr := Some (replicate (nat n) [[0, 0]])\<rparr>\<rparr>,
                print ''Could not find any Tipper data.'' w)"
proof -
  from assms(4) have nf: "map_of (Data_sect e) ''nfreq'' = Some (PInt n)"
    by (simp add: getattr_def split: option.splits)
  from read_mt_impedance_shape [OF assms(3) nf] obtain fr where
    fr: "data_dict st ''freq'' = Some fr" and n: "0 \<le> n"
    by auto
  have zeros: "np_zeros3 (nat n) 1 2 = replicate (nat n) [[0, 0]]" for z :: "'a::zero"
    by (simp add: np_zeros3_def numeral_2_eq_2)
  have "read_mt_tipper (data_dict st) (Data_sect e) fr (Tipper e) w =
          Inr ((Tipper e)\<lparr>T_freq := Some fr,
                    T_tipper := Some (replicate (nat n) [[0, 0]]),
                    T_tippererr := Some (replicate (nat n) [[0, 0]])\<rparr>,
               print ''Could not find any Tipper data.'' w)"
    using assms(2,4) n by (simp add: read_mt_tipper_def np_zeros_shape_def np_zeros3_def numeral_2_eq_2)
  then show ?thesis
    using assms(1,3) fr by (intro exI [of _ fr]) (simp add: read_mt_def dict_get_def)
qed

subsection \<open>The scan of the data lines\<close>

lemma read_mt_scan_append:
  "read_mt_scan ev (xs @ ys) st = bindE (read_mt_scan ev xs st) (read_mt_scan ev ys)"
proof (induction xs arbitrary: st)
  case Nil
  show ?case by simp
next
  case (Cons l ls)
  show ?case by (cases "read_mt_line ev l st") (simp_all add: Cons.IH)
qed

lemma read_mt_line_inv:
  "read_mt_line ev l st = Inr st' \<Longrightarrow> scan_inv st \<Longrightarrow> scan_inv st'"
  unfolding read_mt_line_def scan_inv_def
  by (auto split: if_splits list.splits option.splits simp: Let_def)

lemma read_mt_scan_inv:
  "read_mt_scan ev ls st = Inr st' \<Longrightarrow> scan_inv st \<Longrightarrow> scan_inv st'"
proof (induction ls arbitrary: st)
  case Nil
  then show ?case by simp
next
  case (Cons l ls)
  then show ?case by (auto simp: bindE_eq_Inr dest: read_mt_line_inv)
qed

lemma scan_inv_init: "scan_inv mt_scan_init"
  by (simp add: scan_inv_def mt_scan_init_def)

subsection \<open>The concrete document, decoded\<close>

lemma readlines_demo: "readlines demo_text = demo_head_lines @ demo_data_lines"
  by (simp add: readlines_def demo_text_def demo_head_lines_def demo_data_lines_def)

lemma scan_demo_1: "header_scan (demo_head_lines @ demo_data_lines) 0 False [] = [''DATAID=mt01'', ''LON=140.0'']"
  by code_simp

lemma scan_demo_2: "info_scan (demo_head_lines @ demo_data_lines) 0 False False [] [] = ([''survey one''], [])"
  by code_simp

lemma scan_demo_3: "meas_scan (demo_head_lines @ demo_data_lines) 0 False [] = Inr [PStr ''REFLAT=-30.5'', PStr ''REFLONG=139.5'', PStr ''REFELEV=100'']"
  by code_simp

lemma demo_py_float: "py_float demo_env = map_of demo_floats"
  by (simp add: demo_env_def)

lemma demo_scan:
  "read_mt_scan demo_env demo_data_lines mt_scan_init =
     Inr \<lparr>data_dict = demo_dict, scan_key = Some ''end'', data_find = False\<rparr>"
  by (simp add: demo_data_lines_def read_mt_line_def str_find_def str_split_def str_strip_def
      str_lower_def lower_char_def is_space_def demo_py_float demo_floats_def read_mt_token_def
      mt_scan_init_def demo_dict_def Let_def)

lemma demo_nfreq: "getattr (Data_sect demo_edi) ''nfreq'' = Inr (PInt 2)"
  by (simp add: demo_edi_def demo_data_sect_def getattr_def)

lemma demo_impedance:
  "read_mt_impedance demo_dict (Data_sect demo_edi) (Z demo_edi) = Inr demo_Z"
  unfolding read_mt_impedance_def demo_nfreq
  by (simp add: demo_dict_def demo_edi_def demo_env_def demo_Z_def dict_get_def
      np_zeros_shape_def np_zeros3_def fill_complex_def fill_real_def np_complex_def
      assign_column_def set_entry_def numeral_2_eq_2)

lemma demo_no_tipper: "''txr.exp'' \<notin> dom demo_dict"
  by (simp add: demo_dict_def)

lemma demo_read_mt:
  "read_mt demo_env demo_data_lines demo_edi demo_world =
     Inr (demo_edi\<lparr>Z := demo_Z, Tipper := demo_Tipper\<rparr>,
          print ''Could not find any Tipper data.'' demo_world)"
  unfolding read_mt_def demo_scan
  by (simp add: demo_impedance read_mt_tipper_def demo_nfreq demo_no_tipper
      np_zeros_shape_def np_zeros3_def numeral_2_eq_2 dict_get_def demo_Tipper_def)
     (simp add: demo_dict_def demo_edi_def demo_env_def)





theorem read_mt_missing_tipper_witness:
  "read_mt_scan demo_env demo_data_lines mt_scan_init =
     Inr \<lparr>data_dict = demo_dict, scan_key = Some ''end'', data_find = False\<rparr> \<and>
   ''txr.exp'' \<notin> dom demo_dict \<and>
   read_mt_impedance demo_dict (Data_sect demo_edi) (Z demo_edi) = Inr demo_Z \<and>
   getattr (Data_sect demo_edi) ''nfreq'' = Inr (PInt 2) \<and>
   (\<exists>fr. read_mt demo_env demo_data_lines demo_edi demo_world =
      Inr (demo_edi\<lparr>Z := demo_Z,
             Tipper := (Tipper demo_edi)\<lparr>T_freq := Some fr,
               T_tipper := Some [[[0, 0]], [[0, 0]]],
               T_tippererr := Some [[[0, 0]], [[0, 0]]]\<rparr>\<rparr>,
           print ''Could not find any Tipper data.'' demo_world))"
proof -
  have a: "''txr.exp'' \<notin> dom (data_dict \<lparr>data_dict = demo_dict, scan_key = Some ''end'', data_find = False\<rparr>)"
    by (simp add: demo_no_tipper)
  have b: "read_mt_impedance (data_dict \<lparr>data_dict = demo_dict, scan_key = Some ''end'', data_find = False\<rparr>)
             (Data_sect demo_edi) (Z demo_edi) = Inr demo_Z"
    by (simp add: demo_impedance)
  from read_mt_missing_tipper [OF demo_scan a b demo_nfreq, of demo_world]
  have "\<exists>fr. read_mt demo_env demo_data_lines demo_edi demo_world =
      Inr (demo_edi\<lparr>Z := demo_Z,
             Tipper := (Tipper demo_edi)\<lparr>T_freq := Some fr,
               T_tipper := Some [[[0, 0]], [[0, 0]]],
               T_tippererr := Some [[[0, 0]], [[0, 0]]]\<rparr>\<rparr>,
           print ''Could not find any Tipper data.'' demo_world)"
    by (simp add: numeral_2_eq_2)
  with demo_scan demo_no_tipper demo_impedance demo_nfreq show ?thesis by simp
qed

subsection \<open>Spectra files\<close>

lemma spectra_scan:
  "data_sect_scan demo_spectra_lines 0 0 False
     ((''edi_fn'', PStr ''/data/sp01.edi'') # (''data_type'', PStr ''z'') # (''line_num'', PInt 0) #
      (''data_sect_list'', PNone) # (''_kw_list'', PList (map PStr data_sect_kw_list)) #
      map (\<lambda>key. (key, PNone)) data_sect_kw_list) [] =
   ((''edi_fn'', PStr ''/data/sp01.edi'') # (''data_type'', PStr ''spectra'') # (''line_num'', PInt 4) #
      (''data_sect_list'', PNone) # (''_kw_list'', PList (map PStr data_sect_kw_list)) #
      map (\<lambda>key. (key, PNone)) data_sect_kw_list, [''NFREQ=2'', ''1.0 2.0 0.5 0.5''])"
  by code_simp

lemma spectra_readlines: "readlines (concat demo_spectra_lines) = demo_spectra_lines"
  by (simp add: readlines_def demo_spectra_lines_def)

lemma demo_py_int: "py_int demo_env = map_of [(''2'', 2)]"
  by (simp add: demo_env_def)

lemma spectra_data_sect_read:
  "DataSection_init demo_env (PStr ''/data/sp01.edi'') spectra_world =
     Inr (spectra_data_sect, spectra_world)"
  unfolding DataSection_init_def Let_def read_data_sect_def get_data_sect_def
  apply (simp add: getattr_def isfile_def open_lines_def spectra_world_def spectra_readlines)
  apply (simp only: spectra_scan)
  apply (simp add: setattr_def iter_items_def getattr_def read_data_sect_line_def str_split_on_def
      str_lower_def lower_char_def str_strip_def is_space_def demo_py_int str_remove_def
      spectra_data_sect_def data_sect_kw_list_def)
  done

text \<open>
  C1 (failing behaviour). When the data section declares \<open>data_type == 'spectra'\<close>,
  \<open>_read_data\<close> calls \<open>_read_spectra\<close>, whose body does nothing: the call returns without
  an exception and leaves the document, and with it the impedance and tipper, as they
  were.
\<close>

theorem read_data_spectra_silent:
  assumes "edi_fn e = PStr p"
    and "files w p = Some txt"
    and "getattr (Data_sect e) ''line_num'' = Inr (PInt k)"
    and "getattr (Data_sect e) ''data_type'' = Inr (PStr ''spectra'')"
  shows "read_data ev e w = Inr (e, w)"
  using assms by (simp add: read_data_def index_add_def read_spectra_def)

theorem read_data_spectra_silent_witness:
  "edi_fn spectra_edi = PStr ''/data/sp01.edi'' \<and>
   files spectra_world ''/data/sp01.edi'' = Some (concat demo_spectra_lines) \<and>
   getattr (Data_sect spectra_edi) ''line_num'' = Inr (PInt 4) \<and>
   getattr (Data_sect spectra_edi) ''data_type'' = Inr (PStr ''spectra'') \<and>
   read_data demo_env spectra_edi spectra_world = Inr (spectra_edi, spectra_world) \<and>
   Z_z (Z spectra_edi) = None \<and> T_tipper (Tipper spectra_edi) = None"
proof -
  have a: "edi_fn spectra_edi = PStr ''/data/sp01.edi''"
    by (simp add: spectra_edi_def)
  have b: "files spectra_world ''/data/sp01.edi'' = Some (concat demo_spectra_lines)"
    by (simp add: spectra_world_def)
  have c: "getattr (Data_sect spectra_edi) ''line_num'' = Inr (PInt 4)"
    by (simp add: spectra_edi_def spectra_data_sect_def getattr_def)
  have d: "getattr (Data_sect spectra_edi) ''data_type'' = Inr (PStr ''spectra'')"
    by (simp add: spectra_edi_def spectra_data_sect_def getattr_def)
  have e: "Z_z (Z spectra_edi) = None \<and> T_tipper (Tipper spectra_edi) = None"
    by (simp add: spectra_edi_def demo_env_def)
  from read_data_spectra_silent [OF a b c d, of demo_env] a b c d e show ?thesis by simp
qed

subsection \<open>Tokens of a data line\<close>

text \<open>
  C4. Every data line the scan of \<open>_read_mt\<close> consumes (a line without \<open>>\<close> and \<open>!\<close>
  read while \<open>data_find\<close> is set) is split on whitespace, and the current block grows
  by one float per token: \<open>0.0\<close> for a token that \<open>float\<close> rejects, \<open>0.0\<close> for a token
  whose value is \<open>1.0e32\<close>, and the value of the token otherwise.
\<close>

theorem read_mt_data_line_tokens:
  assumes "read_mt_scan ev pre mt_scan_init = Inr st"
    and "data_find st"
    and "str_find line ''>'' = - 1"
    and "str_find line ''!'' = - 1"
  shows "\<exists>key xs. scan_key st = Some key \<and> data_dict st key = Some xs \<and>
           read_mt_scan ev (pre @ [line]) mt_scan_init =
             Inr (st\<lparr>data_dict := (data_dict st)(key \<mapsto> xs @
               map (\<lambda>dd. case py_float ev dd of
                            None \<Rightarrow> 0
                          | Some v \<Rightarrow> if v = 10 ^ 32 then 0 else v)
                   (str_split (str_strip line)))\<rparr>)"
proof -
  from assms(1) scan_inv_init have "scan_inv st" by (rule read_mt_scan_inv)
  with assms(2) obtain key xs where k: "scan_key st = Some key" "data_dict st key = Some xs"
    by (auto simp: scan_inv_def)
  have tok: "read_mt_token ev =
      (\<lambda>dd. case py_float ev dd of None \<Rightarrow> 0 | Some v \<Rightarrow> if v = 10 ^ 32 then 0 else v)"
    by (rule ext) (simp add: read_mt_token_def split: option.splits)
  have "read_mt_line ev line st = Inr (st\<lparr>data_dict := (data_dict st)(key \<mapsto> xs @
               map (read_mt_token ev) (str_split (str_strip line)))\<rparr>)"
    using assms(2-4) k by (simp add: read_mt_line_def)
  then show ?thesis using assms(1) k by (simp add: read_mt_scan_append tok)
qed

theorem read_mt_data_line_tokens_witness:
  "read_mt_scan demo_env [''>ZXX.VAR ROT=ZROT // 2\<newline>''] mt_scan_init =
     Inr \<lparr>data_dict = [''zxx.var'' \<mapsto> []], scan_key = Some ''zxx.var'', data_find = True\<rparr> \<and>
   str_find '' 1.0e+32 **** 0.5\<newline>'' ''>'' = - 1 \<and>
   str_find '' 1.0e+32 **** 0.5\<newline>'' ''!'' = - 1 \<and>
   read_mt_scan demo_env [''>ZXX.VAR ROT=ZROT // 2\<newline>'', '' 1.0e+32 **** 0.5\<newline>'']
       mt_scan_init =
     Inr \<lparr>data_dict = [''zxx.var'' \<mapsto> [0, 0, 1 / 2]], scan_key = Some ''zxx.var'',
          data_find = True\<rparr>"
proof -
  have a: "read_mt_scan demo_env [''>ZXX.VAR ROT=ZROT // 2\<newline>''] mt_scan_init =
     Inr \<lparr>data_dict = [''zxx.var'' \<mapsto> []], scan_key = Some ''zxx.var'', data_find = True\<rparr>"
    by (simp add: read_mt_line_def str_find_def str_split_def str_strip_def str_lower_def
        lower_char_def is_space_def mt_scan_init_def Let_def)
  have b: "data_find \<lparr>data_dict = [''zxx.var'' \<mapsto> []], scan_key = Some ''zxx.var'', data_find = True\<rparr>"
    by simp
  have c: "str_find '' 1.0e+32 **** 0.5\<newline>'' ''>'' = - 1"
    by (simp add: str_find_def)
  have d: "str_find '' 1.0e+32 **** 0.5\<newline>'' ''!'' = - 1"
    by (simp add: str_find_def)
  have t: "str_split (str_strip '' 1.0e+32 **** 0.5\<newline>'') = [''1.0e+32'', ''****'', ''0.5'']"
    by (simp add: str_split_def str_strip_def is_space_def)
  from read_mt_data_line_tokens [OF a b c d]
  have "read_mt_scan demo_env [''>ZXX.VAR ROT=ZROT // 2\<newline>'', '' 1.0e+32 **** 0.5\<newline>'']
       mt_scan_init =
     Inr \<lparr>data_dict = [''zxx.var'' \<mapsto> [0, 0, 1 / 2]], scan_key = Some ''zxx.var'',
          data_find = True\<rparr>"
    by (simp add: t demo_py_float demo_floats_def)
  with a c d show ?thesis by simp
qed

subsection \<open>Writing a data block\<close>

lemma find_from_nonneg_iff: "0 \<le> find_from i s [c] \<longleftrightarrow> c \<in> set s"
  by (induction s arbitrary: i) auto

lemma str_find_char: "0 \<le> str_find s [c] \<longleftrightarrow> c \<in> set s"
  by (simp add: str_find_def find_from_nonneg_iff)


lemma write_data_values_nth:
  "write_data_values ev hdr k sz i ds = Inr ls \<Longrightarrow>
   length ls = length ds \<and>
   (\<forall>n < length ds. \<exists>v.
      ls ! n = format_float ev num_format v
               @ (if (i + n) mod block_len = 0 then ''\<newline>'' else [])
               @ (if i + n = sz then ''\<newline>'' else []) \<and>
      (if ds ! n = 0 \<and> k \<notin> set [''zrot'', ''trot'']
       then bindE (getattr hdr ''empty'') (to_float ev) = Inr v
       else v = ds ! n))"
proof (induction ds arbitrary: i ls)
  case Nil
  then show ?case by simp
next
  case (Cons d ds)
  have step: "write_data_values ev hdr k sz i (d # ds) =
      bindE (if d = 0 \<and> k \<notin> set [''zrot'', ''trot'']
             then bindE (getattr hdr ''empty'') (to_float ev) else Inr d) (\<lambda>v.
      bindE (write_data_values ev hdr k sz (Suc i) ds) (\<lambda>more.
      Inr ((format_float ev num_format v
               @ (if i mod block_len = 0 then ''\<newline>'' else [])
               @ (if i = sz then ''\<newline>'' else [])) # more)))"
    by (simp add: Let_def)
  from Cons.prems obtain v more where
    v: "(if d = 0 \<and> k \<notin> set [''zrot'', ''trot'']
         then bindE (getattr hdr ''empty'') (to_float ev) else Inr d) = Inr v"
    and more: "write_data_values ev hdr k sz (Suc i) ds = Inr more"
    and ls: "ls = (format_float ev num_format v
               @ (if i mod block_len = 0 then ''\<newline>'' else [])
               @ (if i = sz then ''\<newline>'' else [])) # more"
    unfolding step bindE_eq_Inr by blast
  from Cons.IH [OF more] have ih: "length more = length ds"
    "\<forall>n < length ds. \<exists>v.
      more ! n = format_float ev num_format v
               @ (if (Suc i + n) mod block_len = 0 then ''\<newline>'' else [])
               @ (if Suc i + n = sz then ''\<newline>'' else []) \<and>
      (if ds ! n = 0 \<and> k \<notin> set [''zrot'', ''trot'']
       then bindE (getattr hdr ''empty'') (to_float ev) = Inr v
       else v = ds ! n)"
    by simp_all
  have "\<exists>v. ls ! n = format_float ev num_format v
               @ (if (i + n) mod block_len = 0 then ''\<newline>'' else [])
               @ (if i + n = sz then ''\<newline>'' else []) \<and>
      (if (d # ds) ! n = 0 \<and> k \<notin> set [''zrot'', ''trot'']
       then bindE (getattr hdr ''empty'') (to_float ev) = Inr v
       else v = (d # ds) ! n)" if n: "n < length (d # ds)" for n
  proof (cases n)
    case 0
    with v ls show ?thesis by (auto split: if_splits)
  next
    case (Suc m)
    with n have m: "m < length ds" by simp
    have eqs: "ls ! n = more ! m" "i + n = Suc i + m" "(d # ds) ! n = ds ! m"
      using ls Suc by simp_all
    from ih(2) m show ?thesis unfolding eqs by blast
  qed
  with ih(1) ls show ?case by simp
qed

text \<open>
  C5 (as amended). In a block that \<open>_write_data_block\<close> writes, the element at index
  \<open>n\<close> is formatted with \<open>' 15.6e'\<close>, followed by a line feed after every sixth element
  and after the last one. A zero element of a block whose label is not \<open>zrot\<close> or
  \<open>trot\<close>, the frequency block \<open>freq\<close> included, is formatted as \<open>float(Header.empty)\<close>;
  an element of a rotation block and a non-zero element are formatted as they are.
\<close>

theorem write_data_block_sentinel:
  assumes "write_data_block ev e arr key = Inr ls"
    and "n < length arr"
  shows "\<exists>v. ls ! Suc n = format_float ev '' 15.6e'' v
                 @ (if Suc n mod 6 = 0 then ''\<newline>'' else [])
                 @ (if Suc n = length arr then ''\<newline>'' else []) \<and>
              (if arr ! n = 0 \<and> str_lower key \<noteq> ''zrot'' \<and> str_lower key \<noteq> ''trot''
               then bindE (getattr (Header e) ''empty'') (to_float ev) = Inr v
               else v = arr ! n)"
proof -
  from assms(1) obtain hd_line vals where
    vals: "write_data_values ev (Header e) (str_lower key) (length arr) 1 arr = Inr vals"
    and ls: "ls = [hd_line] @ vals"
    by (auto simp: write_data_block_def Let_def bindE_eq_Inr split: if_splits)
  from write_data_values_nth [OF vals] assms(2) ls show ?thesis
    by (simp add: num_format_def block_len_def)
qed

lemma demo_empty: "bindE (getattr (Header demo_edi) ''empty'') (to_float demo_env) = Inr (10 ^ 32)"
  by (simp add: demo_edi_def demo_header_def getattr_def to_float_def)

lemma demo_format: "format_float demo_env = demo_format_float"
  by (simp add: demo_env_def)

theorem write_data_block_sentinel_witness:
  "write_data_block demo_env demo_edi [0, 1] ''zxxr'' =
     Inr [''>ZXXR ROT=ZROT // 2\<newline>'', ''   1.000000e+32'', ''   1.000000e+00\<newline>''] \<and>
   (0 :: nat) < length [0, 1 :: real] \<and>
   (\<exists>v. bindE (getattr (Header demo_edi) ''empty'') (to_float demo_env) = Inr v \<and>
        [''>ZXXR ROT=ZROT // 2\<newline>'', ''   1.000000e+32'', ''   1.000000e+00\<newline>''] ! Suc 0 =
          format_float demo_env '' 15.6e'' v)"
proof -
  have a: "write_data_block demo_env demo_edi [0, 1] ''zxxr'' =
     Inr [''>ZXXR ROT=ZROT // 2\<newline>'', ''   1.000000e+32'', ''   1.000000e+00\<newline>'']"
    by (simp add: write_data_block_def Let_def str_lower_def lower_char_def str_upper_def
        upper_char_def str_find_def demo_empty demo_format demo_format_float_def num_format_def
        block_len_def)
  have b: "(0 :: nat) < length [0, 1 :: real]" by simp
  have c: "str_lower ''zxxr'' \<noteq> ''zrot'' \<and> str_lower ''zxxr'' \<noteq> ''trot''"
    by (simp add: str_lower_def lower_char_def)
  from write_data_block_sentinel [OF a b] c
  have "\<exists>v. bindE (getattr (Header demo_edi) ''empty'') (to_float demo_env) = Inr v \<and>
        [''>ZXXR ROT=ZROT // 2\<newline>'', ''   1.000000e+32'', ''   1.000000e+00\<newline>''] ! Suc 0 =
          format_float demo_env '' 15.6e'' v"
    by auto
  with a b show ?thesis by simp
qed

text \<open>
  The frequency block is not exempt: its zero element is written as the sentinel.
\<close>

theorem write_data_block_freq_counterexample:
  "write_data_block demo_env demo_edi [0] ''freq'' =
     Inr [''>FREQ // 1\<newline>'', ''   1.000000e+32\<newline>'']"
  by (simp add: write_data_block_def Let_def str_lower_def lower_char_def str_upper_def
      upper_char_def str_find_def demo_empty demo_format demo_format_float_def num_format_def
      block_len_def)




subsection \<open>Readers without a source\<close>

text \<open>
  C7 (as amended). On a section object as its constructor leaves it when no file is
  given, \<open>Header.get_header_list\<close>, \<open>Information.get_info_list\<close>, \<open>Information.read_info\<close>,
  \<open>DefineMeasurement.get_measurement_lists\<close> and
  \<open>DefineMeasurement.read_define_measurement\<close> print one line, leave every attribute as
  it is and do not raise, while \<open>DataSection.get_data_sect\<close> raises \<open>MTpyError_EDI\<close>.
  \<open>Edi.read_edi_file\<close> raises \<open>MTpyError_EDI\<close> when no path is given and when the path
  is not an existing file.
\<close>

theorem section_readers_without_source:
  "(\<exists>h. Header_init ev PNone w = Inr (h, w) \<and>
        get_header_list ev h w = Inr (h, print ''No edi file to read'' w)) \<and>
   (\<exists>i. Information_init ev PNone w = Inr (i, w) \<and>
        get_info_list ev i w = Inr (i, print ''no edi file input, check edi_fn attribute'' w) \<and>
        read_info ev PNone i w = Inr (i, print ''Could not read information'' w)) \<and>
   (\<exists>dm. DefineMeasurement_init ev PNone w = Inr (dm, w) \<and>
        get_measurement_lists ev dm w =
          Inr (dm, print ''No edi file input, check edi_fn attribute'' w) \<and>
        read_define_measurement ev PNone dm w =
          Inr (dm, print ''Nothing to read, check edi_fn or measurement_list attributes'' w)) \<and>
   (\<exists>ds. DataSection_init ev PNone w = Inr (ds, w) \<and>
        get_data_sect ev ds w = Inl (MTpyError_EDI ''No edi file to read. Check edi_fn'')) \<and>
   (edi_fn e = PNone \<longrightarrow>
      read_edi_file ev PNone e w = Inl (MTpyError_EDI ''No edi file input, check edi_fn'')) \<and>
   (files w p = None \<longrightarrow>
      read_edi_file ev (PStr p) e w =
        Inl (MTpyError_EDI (''Could not find '' @ p @ '', check path'')))"
proof -
  have hdr: "\<exists>h. Header_init ev PNone w = Inr (h, w) \<and>
        get_header_list ev h w = Inr (h, print ''No edi file to read'' w)"
    by (simp add: Header_init_def get_header_list_def getattr_def)
  have inf: "\<exists>i. Information_init ev PNone w = Inr (i, w) \<and>
        get_info_list ev i w = Inr (i, print ''no edi file input, check edi_fn attribute'' w) \<and>
        read_info ev PNone i w = Inr (i, print ''Could not read information'' w)"
    by (simp add: Information_init_def get_info_list_def read_info_def getattr_def)
  have dm: "\<exists>dm. DefineMeasurement_init ev PNone w = Inr (dm, w) \<and>
        get_measurement_lists ev dm w =
          Inr (dm, print ''No edi file input, check edi_fn attribute'' w) \<and>
        read_define_measurement ev PNone dm w =
          Inr (dm, print ''Nothing to read, check edi_fn or measurement_list attributes'' w)"
    by (simp add: DefineMeasurement_init_def get_measurement_lists_def
        read_define_measurement_def getattr_def)
  have ds: "\<exists>ds. DataSection_init ev PNone w = Inr (ds, w) \<and>
        get_data_sect ev ds w = Inl (MTpyError_EDI ''No edi file to read. Check edi_fn'')"
    by (simp add: DataSection_init_def get_data_sect_def getattr_def)
  have e1: "edi_fn e = PNone \<longrightarrow>
      read_edi_file ev PNone e w = Inl (MTpyError_EDI ''No edi file input, check edi_fn'')"
    by (simp add: read_edi_file_def)
  have e2: "files w p = None \<longrightarrow>
      read_edi_file ev (PStr p) e w =
        Inl (MTpyError_EDI (''Could not find '' @ p @ '', check path''))"
    by (simp add: read_edi_file_def isfile_def)
  from hdr inf dm ds e1 e2 show ?thesis by blast
qed

theorem section_readers_without_source_witness:
  "edi_fn (demo_edi\<lparr>edi_fn := PNone\<rparr>) = PNone \<and>
   files demo_world ''/data/none.edi'' = None \<and>
   read_edi_file demo_env PNone (demo_edi\<lparr>edi_fn := PNone\<rparr>) demo_world =
     Inl (MTpyError_EDI ''No edi file input, check edi_fn'') \<and>
   read_edi_file demo_env (PStr ''/data/none.edi'') (demo_edi\<lparr>edi_fn := PNone\<rparr>) demo_world =
     Inl (MTpyError_EDI ''Could not find /data/none.edi, check path'')"
proof -
  have a: "edi_fn (demo_edi\<lparr>edi_fn := PNone\<rparr>) = PNone" by simp
  have b: "files demo_world ''/data/none.edi'' = None" by (simp add: demo_world_def)
  from section_readers_without_source
    [of demo_env demo_world "demo_edi\<lparr>edi_fn := PNone\<rparr>" "''/data/none.edi''"] a b
  show ?thesis by simp
qed

text \<open>
  The reader of the data section raises when there is no file: the constructor
  without a path, followed by \<open>get_data_sect\<close>.
\<close>

theorem get_data_sect_counterexample:
  "bindE (DataSection_init demo_env PNone demo_world) (\<lambda>(ds, w). get_data_sect demo_env ds w) =
     Inl (MTpyError_EDI ''No edi file to read. Check edi_fn'')"
  by (simp add: DataSection_init_def get_data_sect_def getattr_def)

subsection \<open>Backfilling the position\<close>

lemma map_of_setattr: "map_of (setattr ob k v) = (map_of ob)(k \<mapsto> v)"
  by (simp add: setattr_def update_conv')

lemma read_mt_sections:
  "read_mt ev ls e w = Inr (e', w') \<Longrightarrow>
   Header e' = Header e \<and> Define_measurement e' = Define_measurement e"
  by (auto simp: read_mt_def bindE_eq_Inr)

lemma read_data_sections:
  "read_data ev e w = Inr (e', w') \<Longrightarrow>
   Header e' = Header e \<and> Define_measurement e' = Define_measurement e"
  by (auto simp: read_data_def read_spectra_def bindE_eq_Inr
      split: pyval.splits option.splits if_splits dest: read_mt_sections)

lemma backfill_result:
  assumes "backfill ev field ref msg e w = Inr (e', w')"
  shows "Define_measurement e' = Define_measurement e \<and>
         map_of (Header e') =
           (if map_of (Header e) field = Some PNone
            then (map_of (Header e))(field := map_of (Define_measurement e) ref)
            else map_of (Header e))"
proof -
  from assms obtain cur where cur: "map_of (Header e) field = Some cur"
    and rest: "(if cur = PNone then
       bindE (getattr (Define_measurement e) ref) (\<lambda>r.
       bindE (getattr (setattr (Header e) field r) ''dataid'') (\<lambda>dataid.
       Inr (e\<lparr>Header := setattr (Header e) field r\<rparr>, print (msg @ str_of ev dataid) w)))
     else Inr (e, w)) = Inr (e', w')"
    by (auto simp: backfill_def bindE_eq_Inr getattr_def split: option.splits)
  show ?thesis
  proof (cases "cur = PNone")
    case False
    with cur rest show ?thesis by simp
  next
    case True
    with rest obtain r where r: "map_of (Define_measurement e) ref = Some r"
      and e': "e' = e\<lparr>Header := setattr (Header e) field r\<rparr>"
      by (auto simp: bindE_eq_Inr getattr_def split: option.splits)
    with cur True show ?thesis by (simp add: map_of_setattr)
  qed
qed

text \<open>
  C8. When \<open>read_edi_file\<close> returns, each of the Header fields \<open>lat\<close>, \<open>lon\<close> and \<open>elev\<close>
  that the header of the file left at \<open>None\<close> holds the value of \<open>reflat\<close>, \<open>reflon\<close>
  and \<open>refelev\<close> of the measurement section, each on its own, and a field that the
  header set keeps its value.
\<close>

theorem read_edi_file_backfill:
  assumes "read_edi_file ev fn_arg e w = Inr (e', w')"
  shows "\<exists>p h w1 i w2 dm w3.
           Header_init ev (PStr p) w = Inr (h, w1) \<and>
           Information_init ev (PStr p) w1 = Inr (i, w2) \<and>
           DefineMeasurement_init ev (PStr p) w2 = Inr (dm, w3) \<and>
           Define_measurement e' = dm \<and>
           map_of (Header e') ''lat'' =
             (if map_of h ''lat'' = Some PNone then map_of dm ''reflat'' else map_of h ''lat'') \<and>
           map_of (Header e') ''lon'' =
             (if map_of h ''lon'' = Some PNone then map_of dm ''reflon'' else map_of h ''lon'') \<and>
           map_of (Header e') ''elev'' =
             (if map_of h ''elev'' = Some PNone then map_of dm ''refelev'' else map_of h ''elev'')"
proof -
  define e0 where "e0 = (if fn_arg \<noteq> PNone then e\<lparr>edi_fn := fn_arg\<rparr> else e)"
  from assms obtain p where p: "edi_fn e0 = PStr p"
    by (auto simp: read_edi_file_def e0_def Let_def split: pyval.splits if_splits)
  from assms p obtain h w1 i w2 dm w3 ds w4 e1 w5 e2 w6 e3 w7 e4 w8 where
    h: "Header_init ev (PStr p) w = Inr (h, w1)"
    and i: "Information_init ev (PStr p) w1 = Inr (i, w2)"
    and dm: "DefineMeasurement_init ev (PStr p) w2 = Inr (dm, w3)"
    and rd: "read_data ev (e0\<lparr>Header := h, Info := i, Define_measurement := dm,
                                   Data_sect := ds\<rparr>) w4 = Inr (e1, w5)"
    and b1: "backfill ev ''lat'' ''reflat'' ''Got latitude from reflat for '' e1 w5 = Inr (e2, w6)"
    and b2: "backfill ev ''lon'' ''reflon'' ''Got longitude from reflon for '' e2 w6 = Inr (e3, w7)"
    and b3: "backfill ev ''elev'' ''refelev'' ''Got elevation from refelev for '' e3 w7 = Inr (e4, w8)"
    and res: "e' = e4"
    unfolding read_edi_file_def Let_def e0_def [symmetric]
    by (auto simp: bindE_eq_Inr split: if_splits)
  from read_data_sections [OF rd] have s1: "Header e1 = h" "Define_measurement e1 = dm"
    by simp_all
  note r1 = backfill_result [OF b1] and r2 = backfill_result [OF b2] and r3 = backfill_result [OF b3]
  have d: "Define_measurement e4 = dm" "Define_measurement e3 = dm" "Define_measurement e2 = dm"
    using r1 r2 r3 s1 by simp_all
  have lat: "map_of (Header e4) ''lat'' =
             (if map_of h ''lat'' = Some PNone then map_of dm ''reflat'' else map_of h ''lat'')"
    using r1 r2 r3 s1 by (simp split: if_splits)
  have lon: "map_of (Header e4) ''lon'' =
             (if map_of h ''lon'' = Some PNone then map_of dm ''reflon'' else map_of h ''lon'')"
    using r1 r2 r3 s1 d by (simp split: if_splits)
  have elev: "map_of (Header e4) ''elev'' =
             (if map_of h ''elev'' = Some PNone then map_of dm ''refelev'' else map_of h ''elev'')"
    using r1 r2 r3 s1 d by (simp split: if_splits)
  from h i dm d(1) lat lon elev res show ?thesis by blast
qed

lemma demo_open: "open_lines demo_world ''/data/mt01.edi'' = Inr (demo_head_lines @ demo_data_lines)"
  by (simp add: open_lines_def demo_world_def readlines_demo)

lemma demo_isfile: "isfile demo_world ''/data/mt01.edi''"
  by (simp add: isfile_def demo_world_def)

lemma demo_validate:
  "validate_header_list [''DATAID=mt01'', ''LON=140.0''] = [''DATAID=mt01'', ''LON=140.0'']"
  by code_simp

lemma demo_header_line_1:
  "read_header_line demo_env (PStr ''DATAID=mt01'') h w = Inr (setattr h ''dataid'' (PStr ''mt01''), w)"
  by (simp add: read_header_line_def str_split_on_def str_lower_def lower_char_def str_in_def
      str_find_def str_remove_def Let_def)

lemma demo_apf:
  "assert_position_format demo_env kind (PStr s) =
     (case map_of demo_positions s of None \<Rightarrow> Inl ValueError | Some x \<Rightarrow> Inr (PFloat x))"
  by (simp add: demo_env_def)

lemma demo_header_line_2:
  "read_header_line demo_env (PStr ''LON=140.0'') h w = Inr (setattr h ''lon'' (PFloat 140), w)"
  by (simp add: read_header_line_def str_split_on_def str_lower_def lower_char_def str_in_def
      str_find_def str_remove_def Let_def demo_apf demo_positions_def)

lemma demo_utcnow: "utcnow demo_env = ''2016/04/11 19:37:37 UTC''"
  by (simp add: demo_env_def)

lemma demo_header_read:
  "Header_init demo_env (PStr ''/data/mt01.edi'') demo_world = Inr (demo_header, demo_world)"
  unfolding Header_init_def Let_def read_header_def get_header_list_def
  by (simp add: getattr_def demo_isfile demo_open scan_demo_1 demo_validate setattr_def
      iter_items_def demo_header_line_1 demo_header_line_2 demo_header_def demo_utcnow)

lemma demo_info_validate:
  "validate_info_list demo_env [PStr ''survey one''] = Inr [''survey one'']"
  by (simp add: str_of_def) (simp add: str_strip_def is_space_def str_find_def)

lemma demo_info_read:
  "Information_init demo_env (PStr ''/data/mt01.edi'') demo_world = Inr (demo_info, demo_world)"
  unfolding Information_init_def Let_def read_info_def get_info_list_def
  by (simp add: getattr_def demo_isfile demo_open scan_demo_2 demo_info_validate setattr_def
      demo_info_def del: validate_info_list.simps)

lemma demo_define_item_1:
  "read_define_item demo_env (PStr ''REFLAT=-30.5'') (dm, v) =
     Inr (setattr dm ''reflat'' (PFloat (- (61 / 2))), Some (PFloat (- (61 / 2))))"
  by (simp add: read_define_item_def str_split_on_def str_lower_def lower_char_def str_in_def
      str_find_def Let_def demo_apf demo_positions_def)

lemma demo_define_item_2:
  "read_define_item demo_env (PStr ''REFLONG=139.5'') (dm, v) =
     Inr (setattr dm ''reflon'' (PFloat (279 / 2)), Some (PFloat (279 / 2)))"
  by (simp add: read_define_item_def str_split_on_def str_lower_def lower_char_def str_in_def
      str_find_def Let_def demo_apf demo_positions_def)

lemma demo_define_item_3:
  "read_define_item demo_env (PStr ''REFELEV=100'') (dm, v) =
     Inr (setattr dm ''refelev'' (PFloat 100), Some (PFloat 100))"
  by (simp add: read_define_item_def str_split_on_def str_lower_def lower_char_def str_in_def
      str_find_def Let_def demo_apf demo_positions_def)

lemma demo_define_read:
  "DefineMeasurement_init demo_env (PStr ''/data/mt01.edi'') demo_world =
     Inr (demo_define, demo_world)"
  unfolding DefineMeasurement_init_def Let_def read_define_measurement_def
    get_measurement_lists_def
  by (simp add: getattr_def demo_isfile demo_open scan_demo_3 setattr_def iter_items_def
      demo_define_item_1 demo_define_item_2 demo_define_item_3 demo_define_def)

lemma demo_data_sect_scan:
  "data_sect_scan (demo_head_lines @ demo_data_lines) 0 0 False
     ((''edi_fn'', PStr ''/data/mt01.edi'') # (''data_type'', PStr ''z'') # (''line_num'', PInt 0) #
      (''data_sect_list'', PNone) # (''_kw_list'', PList (map PStr data_sect_kw_list)) #
      map (\<lambda>key. (key, PNone)) data_sect_kw_list) [] =
   ((''edi_fn'', PStr ''/data/mt01.edi'') # (''data_type'', PStr ''z'') # (''line_num'', PInt 9) #
      (''data_sect_list'', PNone) # (''_kw_list'', PList (map PStr data_sect_kw_list)) #
      map (\<lambda>key. (key, PNone)) data_sect_kw_list,
    [''NFREQ=2'', ''10.0 1.0'', ''1.0 2.0'', ''0.5 0.5'', ''1.0e+32 ****'',
           ''1.0 2.0'', ''0.5 0.5'', ''0.5 0.5'', ''1.0 2.0'', ''0.5 0.5'', ''0.5 0.5'', ''1.0 2.0'',
           ''0.5 0.5'', ''0.5 0.5''])"
  by code_simp

lemma demo_data_sect_line_1:
  "read_data_sect_line demo_env (PStr ''NFREQ=2'') ds = Inr (setattr ds ''nfreq'' (PInt 2))"
  by (simp add: read_data_sect_line_def str_split_on_def str_lower_def lower_char_def
      str_strip_def is_space_def demo_py_int)

lemma demo_data_sect_line_2:
  "CHR ''='' \<notin> set l \<Longrightarrow> read_data_sect_line demo_env (PStr l) ds = Inr ds"
proof -
  have "split_on (CHR ''='') cur l = [cur @ l]" if "CHR ''='' \<notin> set l" for cur
    using that by (induction l arbitrary: cur) auto
  then show "CHR ''='' \<notin> set l \<Longrightarrow> read_data_sect_line demo_env (PStr l) ds = Inr ds"
    by (simp add: read_data_sect_line_def str_split_on_def)
qed

lemma demo_data_sect_read:
  "DataSection_init demo_env (PStr ''/data/mt01.edi'') demo_world =
     Inr (demo_data_sect, demo_world)"
  unfolding DataSection_init_def Let_def read_data_sect_def get_data_sect_def
  apply (simp add: getattr_def demo_isfile demo_open)
  apply (simp only: demo_data_sect_scan)
  apply (simp add: setattr_def iter_items_def getattr_def demo_data_sect_line_1
      demo_data_sect_line_2 demo_data_sect_def data_sect_kw_list_def)
  done

lemma demo_slice: "slice_from (demo_head_lines @ demo_data_lines) 11 = demo_data_lines"
  by (simp add: slice_from_def demo_head_lines_def)

lemma demo_read_data:
  "read_data demo_env demo_edi demo_world =
     Inr (demo_edi\<lparr>Z := demo_Z, Tipper := demo_Tipper\<rparr>,
          print ''Could not find any Tipper data.'' demo_world)"
proof -
  have a: "edi_fn demo_edi = PStr ''/data/mt01.edi''" by (simp add: demo_edi_def)
  have b: "files demo_world ''/data/mt01.edi'' = Some demo_text" by (simp add: demo_world_def)
  have c: "getattr (Data_sect demo_edi) ''line_num'' = Inr (PInt 9)"
    by (simp add: demo_edi_def demo_data_sect_def getattr_def)
  have d: "getattr (Data_sect demo_edi) ''data_type'' = Inr (PStr ''z'')"
    by (simp add: demo_edi_def demo_data_sect_def getattr_def)
  show ?thesis
    by (simp add: read_data_def a b c d index_add_def readlines_demo demo_slice demo_read_mt)
qed

lemma demo_sections:
  "demo_edi\<lparr>Header := demo_header, Info := demo_info, Define_measurement := demo_define,
      Data_sect := demo_data_sect\<rparr> = demo_edi"
  by (simp add: demo_edi_def)

lemma demo_backfill_lat:
  "backfill demo_env ''lat'' ''reflat'' msg (demo_edi\<lparr>Z := demo_Z, Tipper := demo_Tipper\<rparr>) w =
     Inr (demo_edi\<lparr>Z := demo_Z, Tipper := demo_Tipper,
            Header := setattr demo_header ''lat'' (PFloat (- (61 / 2)))\<rparr>,
          print (msg @ ''mt01'') w)"
  by (simp add: backfill_def getattr_def demo_edi_def demo_header_def demo_define_def setattr_def
      str_of_def)

lemma demo_backfill_lon:
  "backfill demo_env ''lon'' ''reflon'' msg (demo_edi\<lparr>Z := demo_Z, Tipper := demo_Tipper,
            Header := setattr demo_header ''lat'' (PFloat (- (61 / 2)))\<rparr>) w =
     Inr (demo_edi\<lparr>Z := demo_Z, Tipper := demo_Tipper,
            Header := setattr demo_header ''lat'' (PFloat (- (61 / 2)))\<rparr>, w)"
  by (simp add: backfill_def getattr_def demo_header_def setattr_def)

lemma demo_backfill_elev:
  "backfill demo_env ''elev'' ''refelev'' msg (demo_edi\<lparr>Z := demo_Z, Tipper := demo_Tipper,
            Header := setattr demo_header ''lat'' (PFloat (- (61 / 2)))\<rparr>) w =
     Inr (demo_result, print (msg @ ''mt01'') w)"
  by (simp add: backfill_def getattr_def demo_edi_def demo_header_def demo_define_def setattr_def
      str_of_def demo_result_def)

lemma demo_read_edi_file:
  "read_edi_file demo_env PNone demo_edi demo_world =
     Inr (demo_result,
          demo_world\<lparr>stdout := [''Could not find any Tipper data.'',
            ''Got latitude from reflat for mt01'', ''Got elevation from refelev for mt01'',
            ''Read in edi file for station mt01'']\<rparr>)"
proof -
  have a: "edi_fn demo_edi = PStr ''/data/mt01.edi''" by (simp add: demo_edi_def)
  have b: "getattr (Header demo_result) ''dataid'' = Inr (PStr ''mt01'')"
    by (simp add: demo_result_def demo_header_def setattr_def getattr_def)
  show ?thesis
    unfolding read_edi_file_def Let_def
    by (simp add: a demo_isfile demo_header_read demo_info_read demo_define_read
        demo_data_sect_read demo_sections demo_read_data demo_backfill_lat demo_backfill_lon
        demo_backfill_elev b str_of_def)
       (simp add: print_def demo_world_def)
qed

theorem read_edi_file_backfill_witness:
  "read_edi_file demo_env PNone demo_edi demo_world =
     Inr (demo_result,
          demo_world\<lparr>stdout := [''Could not find any Tipper data.'',
            ''Got latitude from reflat for mt01'', ''Got elevation from refelev for mt01'',
            ''Read in edi file for station mt01'']\<rparr>) \<and>
   Header_init demo_env (PStr ''/data/mt01.edi'') demo_world = Inr (demo_header, demo_world) \<and>
   DefineMeasurement_init demo_env (PStr ''/data/mt01.edi'') demo_world =
     Inr (demo_define, demo_world) \<and>
   map_of demo_header ''lat'' = Some PNone \<and>
   map_of demo_header ''lon'' = Some (PFloat 140) \<and>
   map_of demo_header ''elev'' = Some PNone \<and>
   map_of demo_define ''reflat'' = Some (PFloat (- (61 / 2))) \<and>
   map_of demo_define ''reflon'' = Some (PFloat (279 / 2)) \<and>
   map_of demo_define ''refelev'' = Some (PFloat 100) \<and>
   map_of (Header demo_result) ''lat'' = Some (PFloat (- (61 / 2))) \<and>
   map_of (Header demo_result) ''lon'' = Some (PFloat 140) \<and>
   map_of (Header demo_result) ''elev'' = Some (PFloat 100)"
proof -
  from read_edi_file_backfill [OF demo_read_edi_file]
  obtain p h w1 i w2 dm w3 where
    h: "Header_init demo_env (PStr p) demo_world = Inr (h, w1)"
    and dm: "Define_measurement demo_result = dm"
    and f: "map_of (Header demo_result) ''lat'' =
             (if map_of h ''lat'' = Some PNone then map_of dm ''reflat'' else map_of h ''lat'')"
      "map_of (Header demo_result) ''lon'' =
             (if map_of h ''lon'' = Some PNone then map_of dm ''reflon'' else map_of h ''lon'')"
      "map_of (Header demo_result) ''elev'' =
             (if map_of h ''elev'' = Some PNone then map_of dm ''refelev'' else map_of h ''elev'')"
    by blast
  have vals: "map_of demo_header ''lat'' = Some PNone" "map_of demo_header ''lon'' = Some (PFloat 140)"
    "map_of demo_header ''elev'' = Some PNone"
    "map_of demo_define ''reflat'' = Some (PFloat (- (61 / 2)))"
    "map_of demo_define ''reflon'' = Some (PFloat (279 / 2))"
    "map_of demo_define ''refelev'' = Some (PFloat 100)"
    by (simp_all add: demo_header_def demo_define_def)
  have res: "map_of (Header demo_result) ''lat'' = Some (PFloat (- (61 / 2)))"
    "map_of (Header demo_result) ''lon'' = Some (PFloat 140)"
    "map_of (Header demo_result) ''elev'' = Some (PFloat 100)"
    by (simp_all add: demo_result_def map_of_setattr demo_header_def)
  from demo_read_edi_file demo_header_read demo_define_read vals res show ?thesis by simp
qed

subsection \<open>The file written\<close>

lemma files_print [simp]: "files (print msg w) = files w"
  by (simp add: print_def)

lemma files_get_header_list:
  "get_header_list ev h w = Inr (h', w') \<Longrightarrow> files w' = files w"
  unfolding get_header_list_def bindE_eq_Inr
  apply (elim exE conjE)
  subgoal for fn by (cases fn) (auto simp: bindE_eq_Inr Let_def split: if_splits)
  done

lemma files_read_header_line:
  "read_header_line ev item h w = Inr (h', w') \<Longrightarrow> files w' = files w"
  unfolding read_header_line_def
  by (cases item) (auto simp: bindE_eq_Inr Let_def split: list.splits if_splits option.splits)

lemma files_read_header_lines:
  "read_header_lines ev items h w = Inr (h', w') \<Longrightarrow> files w' = files w"
proof (induction items arbitrary: h w)
  case Nil
  then show ?case by simp
next
  case (Cons item items)
  from Cons.prems obtain h1 w1 where
    a: "read_header_line ev item h w = Inr (h1, w1)"
    and b: "read_header_lines ev items h1 w1 = Inr (h', w')"
    by (auto simp: bindE_eq_Inr)
  from Cons.IH [OF b] files_read_header_line [OF a] show ?case by simp
qed

lemma files_read_header:
  assumes "read_header ev header_list h w = Inr (h', w')"
  shows "files w' = files w"
  using assms unfolding read_header_def Let_def bindE_eq_Inr
  by (elim exE conjE)
     (auto simp: bindE_eq_Inr split: if_splits prod.splits
       dest!: files_get_header_list files_read_header_lines)

lemma files_Header_init:
  "Header_init ev fn w = Inr (h, w') \<Longrightarrow> files w' = files w"
  by (auto simp: Header_init_def Let_def split: if_splits dest: files_read_header)

lemma files_write_header:
  assumes "write_header ev PNone h w = Inr (ls, h', w')"
  shows "files w' = files w"
  using assms unfolding write_header_def bindE_eq_Inr
  by (elim exE conjE)
     (auto simp: bindE_eq_Inr split: if_splits prod.splits dest!: files_get_header_list)

lemma files_get_info_list:
  "get_info_list ev i w = Inr (i', w') \<Longrightarrow> files w' = files w"
  unfolding get_info_list_def bindE_eq_Inr
  apply (elim exE conjE)
  subgoal for fn by (cases fn) (auto simp: bindE_eq_Inr case_prod_beta split: if_splits)
  done

lemma files_read_info:
  assumes "read_info ev info_list i w = Inr (i', w')"
  shows "files w' = files w"
  using assms unfolding read_info_def bindE_eq_Inr
  by (elim exE conjE)
     (auto simp: bindE_eq_Inr split: if_splits prod.splits dest!: files_get_info_list)

lemma files_Information_init:
  "Information_init ev fn w = Inr (i, w') \<Longrightarrow> files w' = files w"
  by (auto simp: Information_init_def Let_def split: if_splits dest: files_read_info)

lemma files_get_measurement_lists:
  "get_measurement_lists ev dm w = Inr (dm', w') \<Longrightarrow> files w' = files w"
  unfolding get_measurement_lists_def bindE_eq_Inr
  apply (elim exE conjE)
  subgoal for fn by (cases fn) (auto simp: bindE_eq_Inr Let_def split: if_splits)
  done

lemma files_read_define_measurement:
  assumes "read_define_measurement ev measurement_list dm w = Inr (dm', w')"
  shows "files w' = files w"
  using assms unfolding read_define_measurement_def Let_def bindE_eq_Inr
  by (elim exE conjE)
     (auto simp: bindE_eq_Inr split: if_splits prod.splits dest!: files_get_measurement_lists)

lemma files_DefineMeasurement_init:
  "DefineMeasurement_init ev fn w = Inr (dm, w') \<Longrightarrow> files w' = files w"
  by (auto simp: DefineMeasurement_init_def Let_def split: if_splits
      dest: files_read_define_measurement)

lemma files_write_define_measurement:
  "write_define_measurement ev PNone dm w = Inr (ls, dm', w') \<Longrightarrow> files w' = files w"
  by (auto simp: write_define_measurement_def bindE_eq_Inr Let_def split: if_splits)

lemma files_get_data_sect:
  "get_data_sect ev ds w = Inr (ds', w') \<Longrightarrow> files w' = files w"
  unfolding get_data_sect_def bindE_eq_Inr
  apply (elim exE conjE)
  subgoal for fn by (cases fn) (auto simp: bindE_eq_Inr case_prod_beta split: if_splits)
  done

lemma files_read_data_sect:
  assumes "read_data_sect ev data_sect_list ds w = Inr (ds', w')"
  shows "files w' = files w"
  using assms unfolding read_data_sect_def Let_def bindE_eq_Inr
  by (elim exE conjE)
     (auto simp: bindE_eq_Inr split: if_splits prod.splits dest!: files_get_data_sect)

lemma files_DataSection_init:
  "DataSection_init ev fn w = Inr (ds, w') \<Longrightarrow> files w' = files w"
  by (auto simp: DataSection_init_def Let_def split: if_splits dest: files_read_data_sect)

lemma files_write_data_sect:
  "write_data_sect ev PNone ds w = Inr (ls, ds', w') \<Longrightarrow> files w' = files w"
  by (auto simp: write_data_sect_def bindE_eq_Inr)

lemma files_read_mt:
  "read_mt ev ls e w = Inr (e', w') \<Longrightarrow> files w' = files w"
  by (auto simp: read_mt_def read_mt_tipper_def bindE_eq_Inr split: if_splits)

lemma files_read_data:
  "read_data ev e w = Inr (e', w') \<Longrightarrow> files w' = files w"
  unfolding read_data_def
  by (cases "edi_fn e")
     (auto simp: read_spectra_def bindE_eq_Inr split: option.splits if_splits dest: files_read_mt)

lemma files_backfill:
  "backfill ev field ref msg e w = Inr (e', w') \<Longrightarrow> files w' = files w"
  by (auto simp: backfill_def bindE_eq_Inr split: if_splits)

lemma files_read_edi_file:
  assumes "read_edi_file ev fn_arg e w = Inr (e', w')"
  shows "files w' = files w"
proof -
  define e0 where "e0 = (if fn_arg \<noteq> PNone then e\<lparr>edi_fn := fn_arg\<rparr> else e)"
  from assms obtain p where p: "edi_fn e0 = PStr p"
    by (auto simp: read_edi_file_def e0_def Let_def split: pyval.splits if_splits)
  from assms p obtain h w1 i w2 dm w3 ds w4 e1 w5 e2 w6 e3 w7 e4 w8 dataid where
    "Header_init ev (PStr p) w = Inr (h, w1)"
    "Information_init ev (PStr p) w1 = Inr (i, w2)"
    "DefineMeasurement_init ev (PStr p) w2 = Inr (dm, w3)"
    "DataSection_init ev (PStr p) w3 = Inr (ds, w4)"
    "read_data ev (e0\<lparr>Header := h, Info := i, Define_measurement := dm,
                                   Data_sect := ds\<rparr>) w4 = Inr (e1, w5)"
    "backfill ev ''lat'' ''reflat'' ''Got latitude from reflat for '' e1 w5 = Inr (e2, w6)"
    "backfill ev ''lon'' ''reflon'' ''Got longitude from reflon for '' e2 w6 = Inr (e3, w7)"
    "backfill ev ''elev'' ''refelev'' ''Got elevation from refelev for '' e3 w7 = Inr (e4, w8)"
    "w' = print (''Read in edi file for station '' @ str_of ev dataid) w8"
    unfolding read_edi_file_def Let_def e0_def [symmetric]
    by (auto simp: bindE_eq_Inr split: if_splits)
  then show ?thesis
    using files_Header_init files_Information_init files_DefineMeasurement_init
      files_DataSection_init files_read_data files_backfill
    by (metis files_print)
qed

text \<open>
  C10. Whatever target \<open>write_edi_file\<close> starts from (the path given, else the path of
  the document, else \<open><cwd>/<dataid>.edi\<close>), the file it writes and the value it returns
  are the result of \<open>make_unique_filename\<close> on that target; nothing else in the file
  system changes, so when the resolver returns a path that is not in use, every file
  that existed keeps its text.
\<close>

theorem write_edi_file_unique_path:
  assumes "write_edi_file ev new_edi_fn e w = Inr (path, e', w')"
  shows "\<exists>p txt.
           (if new_edi_fn \<noteq> PNone then new_edi_fn = PStr p
            else if edi_fn e \<noteq> PNone then edi_fn e = PStr p
            else \<exists>dataid. getattr (Header e) ''dataid'' = Inr dataid \<and>
                   p = path_join (getcwd ev) (str_of ev dataid @ ''.edi'')) \<and>
           path = make_unique_filename ev (files w) p \<and>
           files w' = (files w)(path \<mapsto> txt) \<and>
           (files w path = None \<longrightarrow> (\<forall>q \<in> dom (files w). files w' q = files w q))"
proof -
  from assms obtain target where
    target: "(if new_edi_fn = PNone then
              (if edi_fn e \<noteq> PNone then Inr (edi_fn e)
               else
                 bindE (getattr (Header e) ''dataid'') (\<lambda>dataid.
                 Inr (PStr (path_join (getcwd ev) (str_of ev dataid @ ''.edi'')))))
            else Inr new_edi_fn) = Inr target"
    and rest: "(case target of
       PStr p \<Rightarrow>
         (let new_fn = make_unique_filename ev (files w) p in
          bindE (getattr (Header e) ''dataid'') (\<lambda>dataid.
          bindE (if dataid = PNone then read_edi_file ev PNone e w else Inr (e, w))
            (\<lambda>(e1, w1).
          bindE (write_header ev PNone (Header e1) w1) (\<lambda>(header_lines, h, w2).
          bindE (write_info ev PNone (Info e1)) (\<lambda>(info_lines, i).
          bindE (write_define_measurement ev PNone (Define_measurement e1) w2)
            (\<lambda>(define_lines, dm, w3).
          bindE (write_data_sect ev PNone (Data_sect e1) w3) (\<lambda>(dsect_lines, ds, w4).
          let e2 = e1\<lparr>Header := h, Info := i, Define_measurement := dm, Data_sect := ds\<rparr> in
          bindE (write_data_lines ev e2) (\<lambda>data_lines.
          let edi_lines = header_lines @ info_lines @ define_lines @ dsect_lines @ data_lines
          in Inr (new_fn, e2,
                  print (''Wrote '' @ new_fn)
                    (w4\<lparr>files := (files w4)(new_fn \<mapsto> concat edi_lines)\<rparr>))))))))))
     | _ \<Rightarrow> Inl TypeError) = Inr (path, e', w')"
    unfolding write_edi_file_def bindE_eq_Inr by blast
  from rest obtain p where p: "target = PStr p"
    by (cases target) simp_all
  from target p have tgt:
    "if new_edi_fn \<noteq> PNone then new_edi_fn = PStr p
     else if edi_fn e \<noteq> PNone then edi_fn e = PStr p
     else \<exists>dataid. getattr (Header e) ''dataid'' = Inr dataid \<and>
            p = path_join (getcwd ev) (str_of ev dataid @ ''.edi'')"
    by (auto simp: bindE_eq_Inr split: if_splits)
  from rest p obtain dataid e1 w1 hl h w2 il i dl dm w3 sl ds w4 body where
    r: "(if dataid = PNone then read_edi_file ev PNone e w else Inr (e, w)) = Inr (e1, w1)"
    and wh: "write_header ev PNone (Header e1) w1 = Inr (hl, h, w2)"
    and wd: "write_define_measurement ev PNone (Define_measurement e1) w2 = Inr (dl, dm, w3)"
    and ws: "write_data_sect ev PNone (Data_sect e1) w3 = Inr (sl, ds, w4)"
    and path: "path = make_unique_filename ev (files w) p"
    and w': "w' = print (''Wrote '' @ path) (w4\<lparr>files := (files w4)(path \<mapsto> body)\<rparr>)"
    by (auto simp: bindE_eq_Inr Let_def)
  from r have "files w1 = files w"
    by (auto split: if_splits dest: files_read_edi_file)
  with files_write_header [OF wh] files_write_define_measurement [OF wd]
    files_write_data_sect [OF ws]
  have "files w4 = files w" by simp
  with w' have fs: "files w' = (files w)(path \<mapsto> body)" by simp
  have keep: "files w path = None \<longrightarrow> (\<forall>q \<in> dom (files w). files w' q = files w q)"
    using fs by auto
  show ?thesis
  proof (intro exI conjI)
    show "if new_edi_fn \<noteq> PNone then new_edi_fn = PStr p
          else if edi_fn e \<noteq> PNone then edi_fn e = PStr p
          else \<exists>dataid. getattr (Header e) ''dataid'' = Inr dataid \<and>
                 p = path_join (getcwd ev) (str_of ev dataid @ ''.edi'')"
      by (fact tgt)
    show "path = make_unique_filename ev (files w) p" by (fact path)
    show "files w' = (files w)(path \<mapsto> body)" by (fact fs)
    show "files w path = None \<longrightarrow> (\<forall>q \<in> dom (files w). files w' q = files w q)"
      by (fact keep)
  qed
qed

lemma strs_of_map_PStr: "strs_of (map PStr xs) = Inr xs"
  by (induction xs) simp_all

lemma write_data_values_ok:
  "bindE (getattr hdr ''empty'') (to_float ev) = Inr s \<Longrightarrow>
   \<exists>ls. write_data_values ev hdr k sz i ds = Inr ls"
proof (induction ds arbitrary: i)
  case Nil
  show ?case by simp
next
  case (Cons d ds)
  from Cons.IH [OF Cons.prems, of "Suc i"] obtain more where
    "write_data_values ev hdr k sz (Suc i) ds = Inr more" by blast
  with Cons.prems show ?case by (simp add: Let_def)
qed

lemma write_data_block_ok:
  assumes "bindE (getattr (Header e) ''empty'') (to_float ev) = Inr s"
    and "CHR ''z'' \<in> set (str_lower key) \<or> CHR ''t'' \<in> set (str_lower key) \<or> str_lower key = ''freq''"
  shows "\<exists>ls. write_data_block ev e arr key = Inr ls"
proof -
  from write_data_values_ok [OF assms(1)] obtain vals where
    "write_data_values ev (Header e) (str_lower key) (length arr) 1 arr = Inr vals" by blast
  with assms(2) show ?thesis
    by (auto simp: write_data_block_def Let_def str_find_char)
qed

lemma demo_doc_empty:
  "bindE (getattr (Header demo_doc) ''empty'') (to_float demo_env) = Inr (10 ^ 32)"
  by (simp add: demo_doc_def demo_result_def demo_header_def setattr_def getattr_def to_float_def)

lemma demo_block_ok:
  "CHR ''z'' \<in> set (str_lower key) \<or> CHR ''t'' \<in> set (str_lower key) \<or> str_lower key = ''freq'' \<Longrightarrow>
   \<exists>ls. write_data_block demo_env demo_doc arr key = Inr ls"
  using write_data_block_ok [OF demo_doc_empty] by blast

lemma write_entry_blocks_ok:
  assumes "a = Some arr" "aerr = Some err_arr"
    and "\<exists>c. column arr i j = Inr c" "\<exists>c. column err_arr i j = Inr c"
    and "\<forall>k < 3. CHR ''z'' \<in> set (str_lower (labels ! k)) \<or> CHR ''t'' \<in> set (str_lower (labels ! k))"
  shows "\<exists>ls. write_entry_blocks demo_env demo_doc a aerr i j labels = Inr ls"
proof -
  from assms(3,4) obtain c v where c: "column arr i j = Inr c" and v: "column err_arr i j = Inr v"
    by blast
  from assms(5) have l: "CHR ''z'' \<in> set (str_lower (labels ! 0)) \<or> CHR ''t'' \<in> set (str_lower (labels ! 0))"
    "CHR ''z'' \<in> set (str_lower (labels ! 1)) \<or> CHR ''t'' \<in> set (str_lower (labels ! 1))"
    "CHR ''z'' \<in> set (str_lower (labels ! 2)) \<or> CHR ''t'' \<in> set (str_lower (labels ! 2))"
    by simp_all
  from demo_block_ok [of "labels ! 0" "map Re c"] l(1) obtain l0 where
    l0: "write_data_block demo_env demo_doc (map Re c) (labels ! 0) = Inr l0" by blast
  from demo_block_ok [of "labels ! 1" "map Im c"] l(2) obtain l1 where
    l1: "write_data_block demo_env demo_doc (map Im c) (labels ! 1) = Inr l1" by blast
  from demo_block_ok [of "labels ! 2" v] l(3) obtain l2 where
    l2: "write_data_block demo_env demo_doc v (labels ! 2) = Inr l2" by blast
  show ?thesis
    by (simp add: write_entry_blocks_def assms(1,2) the_array_def c v l0 l1 [simplified] l2)
qed

lemma lower_z: "CHR ''z'' \<in> set s \<Longrightarrow> CHR ''z'' \<in> set (str_lower s)"
proof -
  have "lower_char (CHR ''z'') = CHR ''z''" by (simp add: lower_char_def)
  then show "CHR ''z'' \<in> set s \<Longrightarrow> CHR ''z'' \<in> set (str_lower s)"
    by (force simp: str_lower_def image_iff)
qed

lemma lower_t: "CHR ''t'' \<in> set s \<Longrightarrow> CHR ''t'' \<in> set (str_lower s)"
proof -
  have "lower_char (CHR ''t'') = CHR ''t''" by (simp add: lower_char_def)
  then show "CHR ''t'' \<in> set s \<Longrightarrow> CHR ''t'' \<in> set (str_lower s)"
    by (force simp: str_lower_def image_iff)
qed

lemma demo_labels:
  "\<forall>k < 3. CHR ''z'' \<in> set (str_lower (z_labels ! n ! k)) \<or> CHR ''t'' \<in> set (str_lower (z_labels ! n ! k))"
  if "n < 4"
proof -
  have "CHR ''z'' \<in> set (z_labels ! n ! k)" if "k < 3" for k
  proof -
    from \<open>n < 4\<close> have n: "n = 0 \<or> n = 1 \<or> n = 2 \<or> n = 3" by arith
    from that have k: "k = 0 \<or> k = 1 \<or> k = 2" by arith
    from n k show ?thesis by (elim disjE) (simp_all add: z_labels_def)
  qed
  then show ?thesis by (simp add: lower_z)
qed

lemma demo_t_labels:
  "\<forall>k < 3. CHR ''z'' \<in> set (str_lower (t_labels ! n ! k)) \<or> CHR ''t'' \<in> set (str_lower (t_labels ! n ! k))"
  if "n < 2"
proof -
  have "CHR ''t'' \<in> set (t_labels ! n ! k)" if "k < 3" for k
  proof -
    from \<open>n < 2\<close> have n: "n = 0 \<or> n = 1" by arith
    from that have k: "k = 0 \<or> k = 1 \<or> k = 2" by arith
    from n k show ?thesis by (elim disjE) (simp_all add: t_labels_def)
  qed
  then show ?thesis by (simp add: lower_t)
qed

lemma demo_doc_Z:
  "Z_z (Z demo_doc) = Z_z demo_Z" "Z_zerr (Z demo_doc) = Z_zerr demo_Z"
  "Z_freq (Z demo_doc) = Some [10, 1]" "Z_rotation_angle (Z demo_doc) = RotArray [0, 0]"
  "T_tipper (Tipper demo_doc) = T_tipper demo_Tipper"
  "T_tippererr (Tipper demo_doc) = T_tippererr demo_Tipper"
  "T_freq (Tipper demo_doc) = Some [10, 1]" "T_rotation_angle (Tipper demo_doc) = RotFloat 0"
  by (simp_all add: demo_doc_def demo_Z_def demo_Tipper_def)

lemma demo_shapes:
  "shape3 (the (Z_z demo_Z)) 2 2 2" "shape3 (the (Z_zerr demo_Z)) 2 2 2"
  "shape3 (the (T_tipper demo_Tipper)) 2 1 2" "shape3 (the (T_tippererr demo_Tipper)) 2 1 2"
  by (simp_all add: shape3_def demo_Z_def demo_Tipper_def)

lemma demo_z_entry:
  assumes "i < 2" "j < 2" "n < 4"
  shows "\<exists>ls. write_entry_blocks demo_env demo_doc (Z_z (Z demo_doc)) (Z_zerr (Z demo_doc)) i j
           (z_labels ! n) = Inr ls"
proof -
  have a: "Z_z (Z demo_doc) = Some (the (Z_z demo_Z))" "Z_zerr (Z demo_doc) = Some (the (Z_zerr demo_Z))"
    by (simp_all add: demo_doc_Z) (simp_all add: demo_Z_def)
  from column_shape3 [OF demo_shapes(1) assms(1,2)] column_shape3 [OF demo_shapes(2) assms(1,2)]
  have "\<exists>c. column (the (Z_z demo_Z)) i j = Inr c" "\<exists>c. column (the (Z_zerr demo_Z)) i j = Inr c"
    by blast+
  with write_entry_blocks_ok [OF a _ _ demo_labels [OF assms(3)]] show ?thesis by blast
qed

lemma demo_t_entry:
  assumes "j < 2" "n < 2"
  shows "\<exists>ls. write_entry_blocks demo_env demo_doc (T_tipper (Tipper demo_doc))
           (T_tippererr (Tipper demo_doc)) 0 j (t_labels ! n) = Inr ls"
proof -
  have a: "T_tipper (Tipper demo_doc) = Some (the (T_tipper demo_Tipper))"
    "T_tippererr (Tipper demo_doc) = Some (the (T_tippererr demo_Tipper))"
    by (simp_all add: demo_doc_Z) (simp_all add: demo_Tipper_def)
  have z: "(0 :: nat) < 1" by simp
  from column_shape3 [OF demo_shapes(3) z assms(1)] column_shape3 [OF demo_shapes(4) z assms(1)]
  have "\<exists>c. column (the (T_tipper demo_Tipper)) 0 j = Inr c"
    "\<exists>c. column (the (T_tippererr demo_Tipper)) 0 j = Inr c"
    by blast+
  with write_entry_blocks_ok [OF a _ _ demo_t_labels [OF assms(2)]] show ?thesis by blast
qed

lemma lower_names:
  "str_lower ''freq'' = ''freq''" "str_lower ''zrot'' = ''zrot''" "str_lower ''trot'' = ''trot''"
  by code_simp+

lemma demo_write_data_lines: "\<exists>ls. write_data_lines demo_env demo_doc = Inr ls"
proof -
  obtain fl where fl: "write_data_block demo_env demo_doc [10, 1] ''freq'' = Inr fl"
    using demo_block_ok [of "''freq''" "[10, 1]"] lower_names by auto
  obtain zl where zl: "write_data_block demo_env demo_doc [0, 0] ''zrot'' = Inr zl"
    using demo_block_ok [of "''zrot''" "[0, 0]"] lower_names by auto
  obtain tl where tl: "write_data_block demo_env demo_doc [0, 0] ''trot'' = Inr tl"
    using demo_block_ok [of "''trot''" "[0, 0]"] lower_names by auto
  obtain b0 b1 b2 b3 where zb:
    "write_entry_blocks demo_env demo_doc (Z_z (Z demo_doc)) (Z_zerr (Z demo_doc)) 0 0 (z_labels ! 0) = Inr b0"
    "write_entry_blocks demo_env demo_doc (Z_z (Z demo_doc)) (Z_zerr (Z demo_doc)) 0 1 (z_labels ! 1) = Inr b1"
    "write_entry_blocks demo_env demo_doc (Z_z (Z demo_doc)) (Z_zerr (Z demo_doc)) 1 0 (z_labels ! 2) = Inr b2"
    "write_entry_blocks demo_env demo_doc (Z_z (Z demo_doc)) (Z_zerr (Z demo_doc)) 1 1 (z_labels ! 3) = Inr b3"
    using demo_z_entry [of 0 0 0] demo_z_entry [of 0 1 1] demo_z_entry [of 1 0 2] demo_z_entry [of 1 1 3]
    by auto
  obtain c0 c1 where tb:
    "write_entry_blocks demo_env demo_doc (T_tipper (Tipper demo_doc)) (T_tippererr (Tipper demo_doc)) 0 0 (t_labels ! 0) = Inr c0"
    "write_entry_blocks demo_env demo_doc (T_tipper (Tipper demo_doc)) (T_tippererr (Tipper demo_doc)) 0 1 (t_labels ! 1) = Inr c1"
    using demo_t_entry [of 0 0] demo_t_entry [of 1 1] by auto
  show ?thesis
    by (simp add: write_data_lines_def write_z_blocks_def write_t_blocks_def zb [simplified]
        tb [simplified] demo_doc_Z(3,4,7,8) the_array_def fl zl tl)
qed

lemma demo_sorted_keys:
  "sort header_keys = [''acqby'', ''acqdate'', ''dataid'', ''elev'', ''empty'', ''fileby'',
     ''filedate'', ''lat'', ''loc'', ''lon'', ''progdate'', ''progvers'']"
  by code_simp

lemma demo_env_fields:
  "degrees2dms_string demo_env = demo_dms"
  "py_str demo_env = demo_str"
  "py_format demo_env (PFloat 100) ''.3f'' = Inr ''100.000''"
  "make_unique_filename demo_env fs p = (if fs p = None then p else ''/data/mt01_1.edi'')"
  by (simp_all add: demo_env_def)

lemma demo_write_header:
  "\<exists>ls. write_header demo_env PNone (Header demo_doc) w = Inr (ls, Header demo_doc, w)"
  unfolding write_header_def
  by (simp add: demo_doc_def demo_result_def demo_header_def setattr_def getattr_def iter_items_def
      strs_of_map_PStr demo_sorted_keys write_header_key_def demo_env_fields demo_dms_def
      demo_str_def str_of_def str_upper_def upper_char_def tab_def demo_utcnow)

lemma demo_write_info:
  "\<exists>ls. write_info demo_env PNone (Info demo_doc) = Inr (ls, Info demo_doc)"
  by (simp add: write_info_def demo_doc_def demo_result_def demo_edi_def demo_info_def getattr_def
      iter_items_def)

lemma demo_write_define:
  "\<exists>ls. write_define_measurement demo_env PNone (Define_measurement demo_doc) w =
          Inr (ls, Define_measurement demo_doc, print ''No XMEAS information.'' w)"
  unfolding write_define_measurement_def
  by (simp add: demo_doc_def demo_result_def demo_edi_def demo_define_def getattr_def
      iter_items_def strs_of_map_PStr define_meas_keys_def write_define_key_def demo_env_fields
      demo_dms_def demo_str_def str_of_def str_upper_def upper_char_def tab_def str_find_def
      Let_def)

lemma demo_write_sect:
  "\<exists>ls. write_data_sect demo_env PNone (Data_sect demo_doc) w = Inr (ls, Data_sect demo_doc, w)"
  unfolding write_data_sect_def
  by (simp add: demo_doc_def demo_result_def demo_edi_def demo_data_sect_def getattr_def
      iter_items_def strs_of_map_PStr data_sect_kw_list_def demo_env_fields demo_str_def
      str_of_def str_upper_def upper_char_def tab_def)

lemma demo_write_edi_file:
  "\<exists>e' w'. write_edi_file demo_env (PStr ''/data/mt01.edi'') demo_doc demo_world =
            Inr (''/data/mt01_1.edi'', e', w')"
proof -
  have id: "getattr (Header demo_doc) ''dataid'' = Inr (PStr ''mt01'')"
    by (simp add: demo_doc_def demo_result_def demo_header_def setattr_def getattr_def)
  have fn: "make_unique_filename demo_env (files demo_world) ''/data/mt01.edi'' = ''/data/mt01_1.edi''"
    by (simp add: demo_env_fields demo_world_def)
  obtain hl where hl: "write_header demo_env PNone (Header demo_doc) demo_world =
      Inr (hl, Header demo_doc, demo_world)"
    using demo_write_header by blast
  obtain il where il: "write_info demo_env PNone (Info demo_doc) = Inr (il, Info demo_doc)"
    using demo_write_info by blast
  obtain dl where dl: "write_define_measurement demo_env PNone (Define_measurement demo_doc) demo_world =
      Inr (dl, Define_measurement demo_doc, print ''No XMEAS information.'' demo_world)"
    using demo_write_define by blast
  obtain sl where sl: "write_data_sect demo_env PNone (Data_sect demo_doc)
        (print ''No XMEAS information.'' demo_world) =
      Inr (sl, Data_sect demo_doc, print ''No XMEAS information.'' demo_world)"
    using demo_write_sect by blast
  obtain xl where xl: "write_data_lines demo_env demo_doc = Inr xl"
    using demo_write_data_lines by blast
  show ?thesis
    unfolding write_edi_file_def
    by (simp add: id fn hl il dl sl xl Let_def)
qed

theorem write_edi_file_unique_path_witness:
  "\<exists>e' w'. write_edi_file demo_env (PStr ''/data/mt01.edi'') demo_doc demo_world =
            Inr (''/data/mt01_1.edi'', e', w') \<and>
          files demo_world ''/data/mt01.edi'' = Some demo_text \<and>
          files demo_world ''/data/mt01_1.edi'' = None \<and>
          files w' ''/data/mt01.edi'' = Some demo_text \<and>
          files w' ''/data/mt01_1.edi'' \<noteq> None"
proof -
  from demo_write_edi_file obtain e' w' where
    w: "write_edi_file demo_env (PStr ''/data/mt01.edi'') demo_doc demo_world =
          Inr (''/data/mt01_1.edi'', e', w')"
    by blast
  from write_edi_file_unique_path [OF w] obtain p body where
    fs: "files w' = (files demo_world)(''/data/mt01_1.edi'' \<mapsto> body)"
    by blast
  have a: "files demo_world ''/data/mt01.edi'' = Some demo_text"
    "files demo_world ''/data/mt01_1.edi'' = None"
    by (simp_all add: demo_world_def)
  from fs a have "files w' ''/data/mt01.edi'' = Some demo_text \<and> files w' ''/data/mt01_1.edi'' \<noteq> None"
    by simp
  with w a show ?thesis by blast
qed

subsection \<open>Round trip of the position codec\<close>



























end
